theory Spec2Isabelle
  imports Main "HOL-Library.Word" "HOL-Library.Signed_Division"
begin

section \<open>The java plugin of collectd (src/java.c): data model\<close>

text \<open>
  The plugin is C code that talks to two collaborators it does not own: the Java virtual
  machine, through JNI, and the collectd daemon, through the plugin API. Both are modelled
  the same way. What a collaborator \<^emph>\<open>answers\<close> is read from a record of oracle functions
  (\<open>world\<close>); what the plugin \<^emph>\<open>does\<close> to a collaborator is appended to one trace of events
  kept in the program state. Every operation that may fail in C (an allocation returning
  NULL, a class or method lookup returning NULL, a non-zero status) is a branch of the model.

  JNI handles (\<open>jobject\<close>, \<open>jclass\<close>, \<open>JNIEnv *\<close>) are natural numbers; a pointer that may be
  NULL is an \<open>option\<close>. A \<open>jlong\<close> is a 64-bit word, a \<open>jdouble\<close> is kept as its 64-bit pattern
  (no floating point arithmetic is done by the plugin), a C \<open>int\<close> that only carries a
  status or a counter is an \<open>int\<close>.
\<close>

type_synonym jref = nat
type_synonym jlong = "64 word"
type_synonym jdouble = "64 word"

text \<open>A method id stands for the method it was resolved from: class, name, signature.\<close>

datatype jmethodID = MethodID jref string string

datatype jvalue = JInt int | JLong jlong | JDouble jdouble | JBoolean bool | JObject jref

datatype log_level = LOG_ERR | LOG_WARNING | LOG_NOTICE

datatype fmt_arg = Str string | Num int

subsection \<open>Native records\<close>

text \<open>
  \<open>value_t\<close> is an untagged union of a 64-bit counter and a double: 64 raw bits, read
  according to the type of the data source. The fields of \<open>data_source_t\<close>, \<open>data_set_t\<close>
  and \<open>value_list_t\<close> are the ones java.c reads and writes; \<open>time_t\<close> is the 64-bit signed
  integer of an LP64 platform, \<open>interval\<close> is an \<open>int\<close> (the code casts to it).
\<close>

type_synonym value_t = "64 word"

record data_source =
  ds_name :: string
  ds_type :: int
  ds_min :: jdouble
  ds_max :: jdouble

record data_set =
  dset_type :: string
  dset_ds :: "data_source list"

record value_list =
  vl_values :: "value_t list"
  vl_time :: "64 word"
  vl_interval :: "32 word"
  vl_host :: string
  vl_plugin :: string
  vl_plugin_instance :: string
  vl_type :: string
  vl_type_instance :: string

definition DS_TYPE_COUNTER :: int where "DS_TYPE_COUNTER = 0"
definition DS_TYPE_GAUGE :: int where "DS_TYPE_GAUGE = 1"

text \<open>
  \<open>oconfig_value_t\<close> is a tagged union; the last constructor is a tag that is none of
  string, number, boolean (the final \<open>else\<close> of \<open>ctoj_oconfig_value\<close>).
\<close>

datatype oconfig_value =
    OCONFIG_TYPE_STRING string
  | OCONFIG_TYPE_NUMBER jdouble
  | OCONFIG_TYPE_BOOLEAN int
  | OCONFIG_TYPE_OTHER int

datatype oconfig_item =
  OConfigItem (ci_key: string) (ci_values: "oconfig_value list") (ci_children: "oconfig_item list")

subsection \<open>The plugin's own records\<close>

record cjni_jvm_env =
  jvm_env :: "jref option"
  reference_counter :: int

record java_plugin_class =
  cls_name :: string
  cls_class :: "jref option"
  cls_object :: "jref option"

record java_plugin_config =
  cfg_name :: string
  cfg_ci :: "oconfig_item option"

definition CB_TYPE_CONFIG :: int where "CB_TYPE_CONFIG = 1"
definition CB_TYPE_INIT :: int where "CB_TYPE_INIT = 2"
definition CB_TYPE_READ :: int where "CB_TYPE_READ = 3"
definition CB_TYPE_WRITE :: int where "CB_TYPE_WRITE = 4"
definition CB_TYPE_SHUTDOWN :: int where "CB_TYPE_SHUTDOWN = 5"

record cjni_callback_info =
  cb_name :: string
  cb_type :: int
  cb_class :: "jref option"
  cb_object :: "jref option"
  cb_method :: "jmethodID option"

subsection \<open>Events, the world and the state\<close>

datatype event =
    Log log_level string "fmt_arg list"
  | NewStringUTF_ev string "jref option"
  | NewObject_ev jref jmethodID "jvalue list" "jref option"
  | CallVoidMethod_ev jref jmethodID "jvalue list"
  | CallIntMethod_ev jref jmethodID "jvalue list" int
  | DeleteLocalRef_ev jref
  | NewGlobalRef_ev jref "jref option"
  | DeleteGlobalRef_ev jref
  | AttachCurrentThread_ev int
  | DetachCurrentThread_ev int
  | DestroyJavaVM_ev
  | plugin_dispatch_values_ev value_list
  | plugin_unregister_read_ev string
  | plugin_register_complex_read_ev string cjni_callback_info
  | plugin_register_write_ev string cjni_callback_info

text \<open>
  The answers of the collaborators. \<open>alloc_fails n\<close> says whether the allocation attempted
  at tick \<open>n\<close> returns NULL; every fallible allocation, in C or in the JVM, uses one tick,
  and a new JNI reference is named by its tick. \<open>name_len\<close> is \<open>DATA_MAX_NAME_LEN\<close> and
  \<open>vl_init\<close> is \<open>VALUE_LIST_INIT\<close>, both declared in plugin.h.
\<close>

record world =
  alloc_fails :: "nat \<Rightarrow> bool"
  find_class :: "string \<Rightarrow> jref option"
  method_exists :: "jref \<Rightarrow> string \<Rightarrow> string \<Rightarrow> bool"
  object_class :: "jref \<Rightarrow> jref option"
  object_result :: "jref \<Rightarrow> jmethodID \<Rightarrow> jref option"
  string_chars :: "jref \<Rightarrow> string option"
  long_result :: "jref \<Rightarrow> jmethodID \<Rightarrow> jlong"
  double_result :: "jref \<Rightarrow> jmethodID \<Rightarrow> jdouble"
  int_result :: "jref \<Rightarrow> jmethodID \<Rightarrow> int"
  array_element :: "jref \<Rightarrow> nat \<Rightarrow> jref option"
  attach_status :: "nat \<Rightarrow> int"
  detach_status :: "nat \<Rightarrow> int"
  get_ds :: "string \<Rightarrow> data_set option"
  dispatch_status :: "value_list \<Rightarrow> int"
  name_len :: nat
  vl_init :: value_list

text \<open>
  The global variables of java.c, the thread-specific value of \<open>jvm_env_key\<close> for the one
  thread that is running, the tick and the trace.
\<close>

record state =
  jvm :: "jref option"
  cjni_env :: "cjni_jvm_env option"
  jvm_argv :: "string list"
  java_classes_list :: "java_plugin_class list"
  java_plugin_configs :: "java_plugin_config list"
  java_callbacks :: "cjni_callback_info list"
  tick :: nat
  events :: "event list"

text \<open>
  A call returns, or the process stops: \<open>Aborted\<close> is a failed \<open>assert\<close>, \<open>Crashed\<close> is
  undefined behaviour of C (a NULL function table, a read past the end of an array).
\<close>

datatype 'a outcome = Returned 'a | Aborted | Crashed

section \<open>Primitive operations\<close>

definition emit :: "event \<Rightarrow> state \<Rightarrow> state" where
  "emit e s = s\<lparr>events := events s @ [e]\<rparr>"

definition ERROR :: "string \<Rightarrow> fmt_arg list \<Rightarrow> state \<Rightarrow> state" where
  "ERROR fmt args s = emit (Log LOG_ERR fmt args) s"

definition WARNING :: "string \<Rightarrow> fmt_arg list \<Rightarrow> state \<Rightarrow> state" where
  "WARNING fmt args s = emit (Log LOG_WARNING fmt args) s"

definition NOTICE :: "string \<Rightarrow> fmt_arg list \<Rightarrow> state \<Rightarrow> state" where
  "NOTICE fmt args s = emit (Log LOG_NOTICE fmt args) s"

text \<open>\<open>malloc\<close>, \<open>calloc\<close>, \<open>realloc\<close>: whether the block was obtained.\<close>

definition c_alloc :: "world \<Rightarrow> state \<Rightarrow> bool \<times> state" where
  "c_alloc w s = (\<not> alloc_fails w (tick s), s\<lparr>tick := Suc (tick s)\<rparr>)"

definition strdup :: "world \<Rightarrow> string \<Rightarrow> state \<Rightarrow> string option \<times> state" where
  "strdup w str s =
     (if alloc_fails w (tick s) then None else Some str, s\<lparr>tick := Suc (tick s)\<rparr>)"

definition oconfig_clone :: "world \<Rightarrow> oconfig_item \<Rightarrow> state \<Rightarrow> oconfig_item option \<times> state" where
  "oconfig_clone w ci s =
     (if alloc_fails w (tick s) then None else Some ci, s\<lparr>tick := Suc (tick s)\<rparr>)"

text \<open>\<open>sstrncpy\<close> of common.c copies at most \<open>n - 1\<close> bytes and terminates the buffer.\<close>

definition sstrncpy :: "nat \<Rightarrow> string \<Rightarrow> string" where
  "sstrncpy n str = take (n - 1) str"

subsection \<open>JNI functions\<close>

definition FindClass :: "world \<Rightarrow> string \<Rightarrow> jref option" where
  "FindClass w cname = find_class w cname"

definition GetMethodID :: "world \<Rightarrow> jref \<Rightarrow> string \<Rightarrow> string \<Rightarrow> jmethodID option" where
  "GetMethodID w c mname msig =
     (if method_exists w c mname msig then Some (MethodID c mname msig) else None)"

definition fresh_ref :: "world \<Rightarrow> state \<Rightarrow> jref option" where
  "fresh_ref w s = (if alloc_fails w (tick s) then None else Some (tick s))"

definition NewStringUTF :: "world \<Rightarrow> string \<Rightarrow> state \<Rightarrow> jref option \<times> state" where
  "NewStringUTF w str s =
     (fresh_ref w s, emit (NewStringUTF_ev str (fresh_ref w s)) (s\<lparr>tick := Suc (tick s)\<rparr>))"

definition NewObject :: "world \<Rightarrow> jref \<Rightarrow> jmethodID \<Rightarrow> jvalue list \<Rightarrow> state \<Rightarrow> jref option \<times> state" where
  "NewObject w c m args s =
     (fresh_ref w s, emit (NewObject_ev c m args (fresh_ref w s)) (s\<lparr>tick := Suc (tick s)\<rparr>))"

definition NewGlobalRef :: "world \<Rightarrow> jref \<Rightarrow> state \<Rightarrow> jref option \<times> state" where
  "NewGlobalRef w obj s =
     (fresh_ref w s, emit (NewGlobalRef_ev obj (fresh_ref w s)) (s\<lparr>tick := Suc (tick s)\<rparr>))"

definition CallVoidMethod :: "jref \<Rightarrow> jmethodID \<Rightarrow> jvalue list \<Rightarrow> state \<Rightarrow> state" where
  "CallVoidMethod obj m args s = emit (CallVoidMethod_ev obj m args) s"

definition CallIntMethod :: "world \<Rightarrow> jref \<Rightarrow> jmethodID \<Rightarrow> jvalue list \<Rightarrow> state \<Rightarrow> int \<times> state" where
  "CallIntMethod w obj m args s =
     (int_result w obj m, emit (CallIntMethod_ev obj m args (int_result w obj m)) s)"

definition DeleteLocalRef :: "jref \<Rightarrow> state \<Rightarrow> state" where
  "DeleteLocalRef r s = emit (DeleteLocalRef_ev r) s"

definition DeleteGlobalRef :: "jref \<Rightarrow> state \<Rightarrow> state" where
  "DeleteGlobalRef r s = emit (DeleteGlobalRef_ev r) s"

text \<open>
  \<open>AttachCurrentThread\<close> answers a status and, when the status is 0, the \<open>JNIEnv\<close> of the
  thread. Both thread calls go through the function table of \<open>jvm\<close>, so they are only
  made where \<open>jvm\<close> is not NULL.
\<close>

definition AttachCurrentThread :: "world \<Rightarrow> state \<Rightarrow> int \<times> jref option \<times> state" where
  "AttachCurrentThread w s =
     (attach_status w (tick s),
      (if attach_status w (tick s) = 0 then Some (tick s) else None),
      emit (AttachCurrentThread_ev (attach_status w (tick s))) (s\<lparr>tick := Suc (tick s)\<rparr>))"

definition DetachCurrentThread :: "world \<Rightarrow> state \<Rightarrow> int \<times> state" where
  "DetachCurrentThread w s =
     (detach_status w (tick s),
      emit (DetachCurrentThread_ev (detach_status w (tick s))) (s\<lparr>tick := Suc (tick s)\<rparr>))"

section \<open>Thread attachment\<close>

text \<open>
  \<open>cjni_thread_attach\<close>: the binding of the thread is looked up and created when absent;
  a positive counter is incremented and the stored context reused; otherwise the thread
  is attached to the JVM. The \<open>assert\<close>s of the source are the \<open>Aborted\<close> branches.
\<close>

definition cjni_thread_attach :: "world \<Rightarrow> state \<Rightarrow> (jref option \<times> state) outcome" where
  "cjni_thread_attach w s =
     (case (case cjni_env s of
              Some e \<Rightarrow> (Some e, s)
            | None \<Rightarrow>
                (case c_alloc w s of
                   (False, s1) \<Rightarrow> (None, s1)
                 | (True, s1) \<Rightarrow>
                     (Some \<lparr>jvm_env = None, reference_counter = 0\<rparr>,
                      s1\<lparr>cjni_env := Some \<lparr>jvm_env = None, reference_counter = 0\<rparr>\<rparr>))) of
        (None, s1) \<Rightarrow>
          Returned (None, ERROR ''java plugin: cjni_thread_attach: malloc failed.'' [] s1)
      | (Some e, s1) \<Rightarrow>
          if reference_counter e > 0 then
            (case jvm_env e of
               None \<Rightarrow> Aborted
             | Some env \<Rightarrow>
                 Returned (Some env,
                   s1\<lparr>cjni_env := Some (e\<lparr>reference_counter := reference_counter e + 1\<rparr>)\<rparr>))
          else if jvm_env e \<noteq> None then Aborted
          else if jvm s1 = None then Crashed
          else
            (case AttachCurrentThread w s1 of
               (status, env, s2) \<Rightarrow>
                 if status \<noteq> 0 then
                   Returned (None,
                     ERROR ''java plugin: cjni_thread_attach: AttachCurrentThread failed with status %i.''
                       [Num status] s2)
                 else
                   (case env of
                      None \<Rightarrow> Aborted
                    | Some env' \<Rightarrow>
                        Returned (Some env',
                          s2\<lparr>cjni_env := Some \<lparr>jvm_env = Some env', reference_counter = 1\<rparr>\<rparr>))))"

text \<open>
  \<open>cjni_thread_detach\<close>: the counter is decremented; only when it reaches zero is the
  thread detached from the JVM and the stored context cleared. The status of
  \<open>DetachCurrentThread\<close> is logged and not returned.
\<close>

definition cjni_thread_detach :: "world \<Rightarrow> state \<Rightarrow> (int \<times> state) outcome" where
  "cjni_thread_detach w s =
     (case cjni_env s of
        None \<Rightarrow>
          Returned (- 1, ERROR ''java plugin: cjni_thread_detach: pthread_getspecific failed.'' [] s)
      | Some e \<Rightarrow>
          if \<not> (reference_counter e > 0) then Aborted
          else if jvm_env e = None then Aborted
          else if reference_counter e - 1 > 0 then
            Returned (0, s\<lparr>cjni_env := Some (e\<lparr>reference_counter := reference_counter e - 1\<rparr>)\<rparr>)
          else if jvm s = None then Crashed
          else
            (case DetachCurrentThread w s of
               (status, s1) \<Rightarrow>
                 let s2 = (if status \<noteq> 0 then
                             ERROR ''java plugin: cjni_thread_detach: DetachCurrentThread failed with status %i.''
                               [Num status] s1
                           else s1)
                 in Returned (0, s2\<lparr>cjni_env := Some \<lparr>jvm_env = None, reference_counter = 0\<rparr>\<rparr>)))"

section \<open>C to Java conversion functions\<close>

definition ctoj_string :: "world \<Rightarrow> string option \<Rightarrow> jref \<Rightarrow> jref \<Rightarrow> string \<Rightarrow> state \<Rightarrow> int \<times> state" where
  "ctoj_string w string class_ptr object_ptr method_name s =
     (case NewStringUTF w (case string of Some str \<Rightarrow> str | None \<Rightarrow> []) s of
        (None, s1) \<Rightarrow> (- 1, ERROR ''java plugin: ctoj_string: NewStringUTF failed.'' [] s1)
      | (Some o_string, s1) \<Rightarrow>
          (case GetMethodID w class_ptr method_name ''(Ljava/lang/String;)V'' of
             None \<Rightarrow>
               (- 1, DeleteLocalRef o_string
                  (ERROR ''java plugin: ctoj_string: Cannot find method `void %s (String)'.''
                     [Str method_name] s1))
           | Some m_set \<Rightarrow>
               (0, DeleteLocalRef o_string (CallVoidMethod object_ptr m_set [JObject o_string] s1))))"

definition ctoj_int :: "world \<Rightarrow> int \<Rightarrow> jref \<Rightarrow> jref \<Rightarrow> string \<Rightarrow> state \<Rightarrow> int \<times> state" where
  "ctoj_int w val class_ptr object_ptr method_name s =
     (case GetMethodID w class_ptr method_name ''(I)V'' of
        None \<Rightarrow>
          (- 1, ERROR ''java plugin: ctoj_int: Cannot find method `void %s (int)'.''
             [Str method_name] s)
      | Some m_set \<Rightarrow> (0, CallVoidMethod object_ptr m_set [JInt val] s))"

definition ctoj_long :: "world \<Rightarrow> jlong \<Rightarrow> jref \<Rightarrow> jref \<Rightarrow> string \<Rightarrow> state \<Rightarrow> int \<times> state" where
  "ctoj_long w val class_ptr object_ptr method_name s =
     (case GetMethodID w class_ptr method_name ''(J)V'' of
        None \<Rightarrow>
          (- 1, ERROR ''java plugin: ctoj_long: Cannot find method `void %s (long)'.''
             [Str method_name] s)
      | Some m_set \<Rightarrow> (0, CallVoidMethod object_ptr m_set [JLong val] s))"

definition ctoj_double :: "world \<Rightarrow> jdouble \<Rightarrow> jref \<Rightarrow> jref \<Rightarrow> string \<Rightarrow> state \<Rightarrow> int \<times> state" where
  "ctoj_double w val class_ptr object_ptr method_name s =
     (case GetMethodID w class_ptr method_name ''(D)V'' of
        None \<Rightarrow>
          (- 1, ERROR ''java plugin: ctoj_double: Cannot find method `void %s (double)'.''
             [Str method_name] s)
      | Some m_set \<Rightarrow> (0, CallVoidMethod object_ptr m_set [JDouble val] s))"

definition ctoj_jlong_to_number :: "world \<Rightarrow> jlong \<Rightarrow> state \<Rightarrow> jref option \<times> state" where
  "ctoj_jlong_to_number w val s =
     (case FindClass w ''java.lang.Long'' of
        None \<Rightarrow>
          (None, ERROR ''java plugin: ctoj_jlong_to_number: Looking up the java.lang.Long class failed.'' [] s)
      | Some c_long \<Rightarrow>
          (case GetMethodID w c_long ''<init>'' ''(J)V'' of
             None \<Rightarrow>
               (None, ERROR ''java plugin: ctoj_jlong_to_number: Looking up the `Long (long)' constructor failed.'' [] s)
           | Some m_long_constructor \<Rightarrow> NewObject w c_long m_long_constructor [JLong val] s))"

definition ctoj_jdouble_to_number :: "world \<Rightarrow> jdouble \<Rightarrow> state \<Rightarrow> jref option \<times> state" where
  "ctoj_jdouble_to_number w val s =
     (case FindClass w ''java.lang.Double'' of
        None \<Rightarrow>
          (None, ERROR ''java plugin: ctoj_jdouble_to_number: Looking up the java.lang.Double class failed.'' [] s)
      | Some c_double \<Rightarrow>
          (case GetMethodID w c_double ''<init>'' ''(D)V'' of
             None \<Rightarrow>
               (None, ERROR ''java plugin: ctoj_jdouble_to_number: Looking up the `Double (double)' constructor failed.'' [] s)
           | Some m_double_constructor \<Rightarrow> NewObject w c_double m_double_constructor [JDouble val] s))"

definition ctoj_value_to_number :: "world \<Rightarrow> value_t \<Rightarrow> int \<Rightarrow> state \<Rightarrow> jref option \<times> state" where
  "ctoj_value_to_number w val dstype s =
     (if dstype = DS_TYPE_COUNTER then ctoj_jlong_to_number w val s
      else if dstype = DS_TYPE_GAUGE then ctoj_jdouble_to_number w val s
      else (None, s))"

definition ctoj_data_source :: "world \<Rightarrow> data_source \<Rightarrow> state \<Rightarrow> jref option \<times> state" where
  "ctoj_data_source w dsrc s =
     (case FindClass w ''org.collectd.api.DataSource'' of
        None \<Rightarrow>
          (None, ERROR ''java plugin: ctoj_data_source: FindClass (org.collectd.api.DataSource) failed.'' [] s)
      | Some c_datasource \<Rightarrow>
      (case GetMethodID w c_datasource ''<init>'' ''()V'' of
        None \<Rightarrow>
          (None, ERROR ''java plugin: ctoj_data_source: Cannot find the `DataSource ()' constructor.'' [] s)
      | Some m_datasource_constructor \<Rightarrow>
      (case NewObject w c_datasource m_datasource_constructor [] s of
        (None, s1) \<Rightarrow>
          (None, ERROR ''java plugin: ctoj_data_source: Creating a new DataSource instance failed.'' [] s1)
      | (Some o_datasource, s1) \<Rightarrow>
      (case ctoj_string w (Some (ds_name dsrc)) c_datasource o_datasource ''setName'' s1 of
        (status, s2) \<Rightarrow>
      if status \<noteq> 0 then
        (None, DeleteLocalRef o_datasource
           (ERROR ''java plugin: ctoj_data_source: ctoj_string (setName) failed.'' [] s2))
      else
      (case ctoj_int w (ds_type dsrc) c_datasource o_datasource ''setType'' s2 of
        (status, s3) \<Rightarrow>
      if status \<noteq> 0 then
        (None, DeleteLocalRef o_datasource
           (ERROR ''java plugin: ctoj_data_source: ctoj_int (setType) failed.'' [] s3))
      else
      (case ctoj_double w (ds_min dsrc) c_datasource o_datasource ''setMin'' s3 of
        (status, s4) \<Rightarrow>
      if status \<noteq> 0 then
        (None, DeleteLocalRef o_datasource
           (ERROR ''java plugin: ctoj_data_source: ctoj_double (setMin) failed.'' [] s4))
      else
      (case ctoj_double w (ds_max dsrc) c_datasource o_datasource ''setMax'' s4 of
        (status, s5) \<Rightarrow>
      if status \<noteq> 0 then
        (None, DeleteLocalRef o_datasource
           (ERROR ''java plugin: ctoj_data_source: ctoj_double (setMax) failed.'' [] s5))
      else (Some o_datasource, s5))))))))"

text \<open>
  \<open>ctoj_oconfig_value\<close>: the boolean branch constructs the object at once; the string and
  number branches first build the argument, and both \<open>assert\<close>s before the common
  \<open>NewObject\<close> hold on every path that reaches them.
\<close>

definition ctoj_oconfig_value :: "world \<Rightarrow> oconfig_value \<Rightarrow> state \<Rightarrow> jref option \<times> state" where
  "ctoj_oconfig_value w ocvalue s =
     (case FindClass w ''org.collectd.api.OConfigValue'' of
        None \<Rightarrow>
          (None, ERROR ''java plugin: ctoj_oconfig_value: FindClass (org.collectd.api.OConfigValue) failed.'' [] s)
      | Some c_ocvalue \<Rightarrow>
      (case (case ocvalue of
          OCONFIG_TYPE_BOOLEAN b \<Rightarrow>
            (case GetMethodID w c_ocvalue ''<init>'' ''(Z)V'' of
               None \<Rightarrow>
                 Inl (None, ERROR ''java plugin: ctoj_oconfig_value: Cannot find the `OConfigValue (boolean)' constructor.'' [] s)
             | Some m \<Rightarrow> Inl (NewObject w c_ocvalue m [JBoolean (b \<noteq> 0)] s))
        | OCONFIG_TYPE_STRING str \<Rightarrow>
            (case GetMethodID w c_ocvalue ''<init>'' ''(Ljava/lang/String;)V'' of
               None \<Rightarrow>
                 Inl (None, ERROR ''java plugin: ctoj_oconfig_value: Cannot find the `OConfigValue (String)' constructor.'' [] s)
             | Some m \<Rightarrow>
                 (case NewStringUTF w str s of
                    (None, s1) \<Rightarrow>
                      Inl (None, ERROR ''java plugin: ctoj_oconfig_value: Creating a String object failed.'' [] s1)
                  | (Some o_argument, s1) \<Rightarrow> Inr (m, o_argument, s1)))
        | OCONFIG_TYPE_NUMBER n \<Rightarrow>
            (case GetMethodID w c_ocvalue ''<init>'' ''(Ljava/lang/Number;)V'' of
               None \<Rightarrow>
                 Inl (None, ERROR ''java plugin: ctoj_oconfig_value: Cannot find the `OConfigValue (Number)' constructor.'' [] s)
             | Some m \<Rightarrow>
                 (case ctoj_jdouble_to_number w n s of
                    (None, s1) \<Rightarrow>
                      Inl (None, ERROR ''java plugin: ctoj_oconfig_value: Creating a Number object failed.'' [] s1)
                  | (Some o_argument, s1) \<Rightarrow> Inr (m, o_argument, s1)))
        | OCONFIG_TYPE_OTHER t \<Rightarrow> Inl (None, s)) of
         Inl done \<Rightarrow> done
       | Inr (m_ocvalue_constructor, o_argument, s1) \<Rightarrow>
           (case NewObject w c_ocvalue m_ocvalue_constructor [JObject o_argument] s1 of
              (None, s2) \<Rightarrow>
                (None, DeleteLocalRef o_argument
                   (ERROR ''java plugin: ctoj_oconfig_value: Creating an OConfigValue object failed.'' [] s2))
            | (Some o_ocvalue, s2) \<Rightarrow> (Some o_ocvalue, DeleteLocalRef o_argument s2))))"

text \<open>The first loop of \<open>ctoj_oconfig_item\<close>: one \<open>CallVoidMethod\<close> per value.\<close>

fun ctoj_oconfig_item_values ::
  "world \<Rightarrow> jref \<Rightarrow> jmethodID \<Rightarrow> oconfig_value list \<Rightarrow> state \<Rightarrow> bool \<times> state" where
  "ctoj_oconfig_item_values w o_ocitem m_addvalue [] s = (True, s)"
| "ctoj_oconfig_item_values w o_ocitem m_addvalue (v # vs) s =
     (case ctoj_oconfig_value w v s of
        (None, s1) \<Rightarrow>
          (False, DeleteLocalRef o_ocitem
             (ERROR ''java plugin: ctoj_oconfig_item: Creating an OConfigValue object failed.'' [] s1))
      | (Some o_value, s1) \<Rightarrow>
          ctoj_oconfig_item_values w o_ocitem m_addvalue vs
            (DeleteLocalRef o_value (CallVoidMethod o_ocitem m_addvalue [JObject o_value] s1)))"

text \<open>
  \<open>ctoj_oconfig_item\<close> and its second loop, over the children. The loop is given the two
  method ids the function has looked up, \<open>m_addvalue\<close> and \<open>m_addchild\<close>, and calls, as the
  source does, \<open>CallVoidMethod (jvm_env, o_ocitem, m_addvalue, o_child)\<close>.
\<close>

fun ctoj_oconfig_item :: "world \<Rightarrow> oconfig_item \<Rightarrow> state \<Rightarrow> jref option \<times> state"
  and ctoj_oconfig_item_children ::
    "world \<Rightarrow> jref \<Rightarrow> jmethodID \<Rightarrow> jmethodID \<Rightarrow> oconfig_item list \<Rightarrow> state \<Rightarrow> bool \<times> state" where
  "ctoj_oconfig_item w (OConfigItem k vals chs) s =
     (case FindClass w ''org.collectd.api.OConfigItem'' of
        None \<Rightarrow>
          (None, ERROR ''java plugin: ctoj_oconfig_item: FindClass (org.collectd.api.OConfigItem) failed.'' [] s)
      | Some c_ocitem \<Rightarrow>
      (case GetMethodID w c_ocitem ''<init>'' ''(Ljava/lang/String;)V'' of
        None \<Rightarrow>
          (None, ERROR ''java plugin: ctoj_oconfig_item: Cannot find the `OConfigItem (String)' constructor.'' [] s)
      | Some m_ocitem_constructor \<Rightarrow>
      (case GetMethodID w c_ocitem ''addValue'' ''(Lorg/collectd/api/OConfigValue;)V'' of
        None \<Rightarrow>
          (None, ERROR ''java plugin: ctoj_oconfig_item: Cannot find the `addValue (OConfigValue)' method.'' [] s)
      | Some m_addvalue \<Rightarrow>
      (case GetMethodID w c_ocitem ''addChild'' ''(Lorg/collectd/api/OConfigItem;)V'' of
        None \<Rightarrow>
          (None, ERROR ''java plugin: ctoj_oconfig_item: Cannot find the `addChild (OConfigItem)' method.'' [] s)
      | Some m_addchild \<Rightarrow>
      (case NewStringUTF w k s of
        (None, s1) \<Rightarrow>
          (None, ERROR ''java plugin: ctoj_oconfig_item: Creating String object failed.'' [] s1)
      | (Some o_key, s1) \<Rightarrow>
      (case NewObject w c_ocitem m_ocitem_constructor [JObject o_key] s1 of
        (None, s2) \<Rightarrow>
          (None, DeleteLocalRef o_key
             (ERROR ''java plugin: ctoj_oconfig_item: Creating an OConfigItem object failed.'' [] s2))
      | (Some o_ocitem, s2) \<Rightarrow>
      (case ctoj_oconfig_item_values w o_ocitem m_addvalue vals (DeleteLocalRef o_key s2) of
        (False, s3) \<Rightarrow> (None, s3)
      | (True, s3) \<Rightarrow>
      (case ctoj_oconfig_item_children w o_ocitem m_addvalue m_addchild chs s3 of
        (False, s4) \<Rightarrow> (None, s4)
      | (True, s4) \<Rightarrow> (Some o_ocitem, s4)))))))))"
| "ctoj_oconfig_item_children w o_ocitem m_addvalue m_addchild [] s = (True, s)"
| "ctoj_oconfig_item_children w o_ocitem m_addvalue m_addchild (c # cs) s =
     (case ctoj_oconfig_item w c s of
        (None, s1) \<Rightarrow>
          (False, DeleteLocalRef o_ocitem
             (ERROR ''java plugin: ctoj_oconfig_item: Creating an OConfigItem object failed.'' [] s1))
      | (Some o_child, s1) \<Rightarrow>
          ctoj_oconfig_item_children w o_ocitem m_addvalue m_addchild cs
            (DeleteLocalRef o_child (CallVoidMethod o_ocitem m_addvalue [JObject o_child] s1)))"

text \<open>The loop of \<open>ctoj_data_set\<close> over the data sources.\<close>

fun ctoj_data_set_sources ::
  "world \<Rightarrow> string \<Rightarrow> jref \<Rightarrow> jmethodID \<Rightarrow> data_source list \<Rightarrow> state \<Rightarrow> bool \<times> state" where
  "ctoj_data_set_sources w tname o_dataset m_add [] s = (True, s)"
| "ctoj_data_set_sources w tname o_dataset m_add (d # ds) s =
     (case ctoj_data_source w d s of
        (None, s1) \<Rightarrow>
          (False, DeleteLocalRef o_dataset
             (ERROR ''java plugin: ctoj_data_set: ctoj_data_source (%s.%s) failed''
                [Str tname, Str (ds_name d)] s1))
      | (Some o_datasource, s1) \<Rightarrow>
          ctoj_data_set_sources w tname o_dataset m_add ds
            (DeleteLocalRef o_datasource (CallVoidMethod o_dataset m_add [JObject o_datasource] s1)))"

definition ctoj_data_set :: "world \<Rightarrow> data_set \<Rightarrow> state \<Rightarrow> jref option \<times> state" where
  "ctoj_data_set w ds s =
     (case FindClass w ''org.collectd.api.DataSet'' of
        None \<Rightarrow>
          (None, ERROR ''java plugin: ctoj_data_set: Looking up the org.collectd.api.DataSet class failed.'' [] s)
      | Some c_dataset \<Rightarrow>
      (case GetMethodID w c_dataset ''<init>'' ''(Ljava.lang.String;)V'' of
        None \<Rightarrow>
          (None, ERROR ''java plugin: ctoj_data_set: Looking up the `DataSet (String)' constructor failed.'' [] s)
      | Some m_constructor \<Rightarrow>
      (case GetMethodID w c_dataset ''addDataSource'' ''(Lorg.collectd.api.DataSource;)V'' of
        None \<Rightarrow>
          (None, ERROR ''java plugin: ctoj_data_set: Looking up the `addDataSource (DataSource)' method failed.'' [] s)
      | Some m_add \<Rightarrow>
      (case NewStringUTF w (dset_type ds) s of
        (None, s1) \<Rightarrow>
          (None, ERROR ''java plugin: ctoj_data_set: Creating a String object failed.'' [] s1)
      | (Some o_type, s1) \<Rightarrow>
      (case NewObject w c_dataset m_constructor [JObject o_type] s1 of
        (None, s2) \<Rightarrow>
          (None, DeleteLocalRef o_type
             (ERROR ''java plugin: ctoj_data_set: Creating a DataSet object failed.'' [] s2))
      | (Some o_dataset, s2) \<Rightarrow>
      (case ctoj_data_set_sources w (dset_type ds) o_dataset m_add (dset_ds ds)
              (DeleteLocalRef o_type s2) of
        (False, s3) \<Rightarrow> (None, s3)
      | (True, s3) \<Rightarrow> (Some o_dataset, s3)))))))"

definition ctoj_value_list_add_value ::
  "world \<Rightarrow> value_t \<Rightarrow> int \<Rightarrow> jref \<Rightarrow> jref \<Rightarrow> state \<Rightarrow> int \<times> state" where
  "ctoj_value_list_add_value w val dstype class_ptr object_ptr s =
     (case GetMethodID w class_ptr ''addValue'' ''(Ljava/lang/Number;)V'' of
        None \<Rightarrow>
          (- 1, ERROR ''java plugin: ctoj_value_list_add_value: Cannot find method `void addValue (Number)'.'' [] s)
      | Some m_addvalue \<Rightarrow>
          (case ctoj_value_to_number w val dstype s of
             (None, s1) \<Rightarrow>
               (- 1, ERROR ''java plugin: ctoj_value_list_add_value: ctoj_value_to_number failed.'' [] s1)
           | (Some o_number, s1) \<Rightarrow>
               (0, DeleteLocalRef o_number
                     (CallVoidMethod object_ptr m_addvalue [JObject o_number] s1))))"

definition ctoj_value_list_add_data_set ::
  "world \<Rightarrow> jref \<Rightarrow> jref \<Rightarrow> data_set \<Rightarrow> state \<Rightarrow> int \<times> state" where
  "ctoj_value_list_add_data_set w c_valuelist o_valuelist ds s =
     (case GetMethodID w c_valuelist ''setDataSet'' ''(Lorg.collectd.api.DataSet;)V'' of
        None \<Rightarrow>
          (- 1, ERROR ''java plugin: ctoj_value_list_add_data_set: Cannot find the `void setDataSet (DataSet)' method.'' [] s)
      | Some m_setdataset \<Rightarrow>
          (case ctoj_data_set w ds s of
             (None, s1) \<Rightarrow>
               (- 1, ERROR ''java plugin: ctoj_value_list_add_data_set: ctoj_data_set (%s) failed.''
                       [Str (dset_type ds)] s1)
           | (Some o_dataset, s1) \<Rightarrow>
               (0, DeleteLocalRef o_dataset
                     (CallVoidMethod o_valuelist m_setdataset [JObject o_dataset] s1))))"

text \<open>
  The last loop of \<open>ctoj_value_list\<close> pairs \<open>vl->values[i]\<close> with \<open>ds->ds[i].type\<close> for
  \<open>i < vl->values_len\<close>; with fewer data sources than values the read of \<open>ds->ds[i]\<close> is
  past the end of the array.
\<close>

fun ctoj_value_list_values ::
  "world \<Rightarrow> jref \<Rightarrow> jref \<Rightarrow> value_t list \<Rightarrow> data_source list \<Rightarrow> state \<Rightarrow> (bool \<times> state) outcome" where
  "ctoj_value_list_values w c_valuelist o_valuelist [] dsrcs s = Returned (True, s)"
| "ctoj_value_list_values w c_valuelist o_valuelist (v # vs) [] s = Crashed"
| "ctoj_value_list_values w c_valuelist o_valuelist (v # vs) (d # dsrcs) s =
     (case ctoj_value_list_add_value w v (ds_type d) c_valuelist o_valuelist s of
        (status, s1) \<Rightarrow>
          if status \<noteq> 0 then
            Returned (False, DeleteLocalRef o_valuelist
              (ERROR ''java plugin: ctoj_value_list: ctoj_value_list_add_value failed.'' [] s1))
          else ctoj_value_list_values w c_valuelist o_valuelist vs dsrcs s1)"

text \<open>The five \<open>SET_STRING\<close> lines of \<open>ctoj_value_list\<close>, in their order.\<close>

fun ctoj_value_list_strings ::
  "world \<Rightarrow> jref \<Rightarrow> jref \<Rightarrow> (string \<times> string) list \<Rightarrow> state \<Rightarrow> bool \<times> state" where
  "ctoj_value_list_strings w c_valuelist o_valuelist [] s = (True, s)"
| "ctoj_value_list_strings w c_valuelist o_valuelist ((str, method_name) # rest) s =
     (case ctoj_string w (Some str) c_valuelist o_valuelist method_name s of
        (status, s1) \<Rightarrow>
          if status \<noteq> 0 then
            (False, DeleteLocalRef o_valuelist
               (ERROR ''java plugin: ctoj_value_list: jtoc_string (%s) failed.'' [Str method_name] s1))
          else ctoj_value_list_strings w c_valuelist o_valuelist rest s1)"

text \<open>
  \<open>ctoj_value_list\<close>. The time is passed to \<open>setTime\<close> as
  \<open>((jlong) vl->time) * ((jlong) 1000)\<close>, the interval to \<open>setInterval\<close> as
  \<open>(jlong) vl->interval\<close>.
\<close>

definition ctoj_value_list :: "world \<Rightarrow> data_set \<Rightarrow> value_list \<Rightarrow> state \<Rightarrow> (jref option \<times> state) outcome" where
  "ctoj_value_list w ds vl s =
     (case FindClass w ''org.collectd.api.ValueList'' of
        None \<Rightarrow>
          Returned (None, ERROR ''java plugin: ctoj_value_list: FindClass (org.collectd.api.ValueList) failed.'' [] s)
      | Some c_valuelist \<Rightarrow>
      (case GetMethodID w c_valuelist ''<init>'' ''()V'' of
        None \<Rightarrow>
          Returned (None, ERROR ''java plugin: ctoj_value_list: Cannot find the `ValueList ()' constructor.'' [] s)
      | Some m_valuelist_constructor \<Rightarrow>
      (case NewObject w c_valuelist m_valuelist_constructor [] s of
        (None, s1) \<Rightarrow>
          Returned (None, ERROR ''java plugin: ctoj_value_list: Creating a new ValueList instance failed.'' [] s1)
      | (Some o_valuelist, s1) \<Rightarrow>
      (case ctoj_value_list_add_data_set w c_valuelist o_valuelist ds s1 of
        (status, s2) \<Rightarrow>
      if status \<noteq> 0 then
        Returned (None, DeleteLocalRef o_valuelist
          (ERROR ''java plugin: ctoj_value_list: ctoj_value_list_add_data_set failed.'' [] s2))
      else
      (case ctoj_value_list_strings w c_valuelist o_valuelist
              [(vl_host vl, ''setHost''), (vl_plugin vl, ''setPlugin''),
               (vl_plugin_instance vl, ''setPluginInstance''), (vl_type vl, ''setType''),
               (vl_type_instance vl, ''setTypeInstance'')] s2 of
        (False, s3) \<Rightarrow> Returned (None, s3)
      | (True, s3) \<Rightarrow>
      (case ctoj_long w (vl_time vl * 1000) c_valuelist o_valuelist ''setTime'' s3 of
        (status, s4) \<Rightarrow>
      if status \<noteq> 0 then
        Returned (None, DeleteLocalRef o_valuelist
          (ERROR ''java plugin: ctoj_value_list: ctoj_long (setTime) failed.'' [] s4))
      else
      (case ctoj_long w (scast (vl_interval vl)) c_valuelist o_valuelist ''setInterval'' s4 of
        (status, s5) \<Rightarrow>
      if status \<noteq> 0 then
        Returned (None, DeleteLocalRef o_valuelist
          (ERROR ''java plugin: ctoj_value_list: ctoj_long (setInterval) failed.'' [] s5))
      else
      (case ctoj_value_list_values w c_valuelist o_valuelist (vl_values vl) (dset_ds ds) s5 of
        Returned (False, s6) \<Rightarrow> Returned (None, s6)
      | Returned (True, s6) \<Rightarrow> Returned (Some o_valuelist, s6)
      | Aborted \<Rightarrow> Aborted
      | Crashed \<Rightarrow> Crashed))))))))"

section \<open>Java to C conversion functions\<close>

text \<open>
  These functions read the managed object: what a getter returns is an answer of the
  world. \<open>ReleaseStringUTFChars\<close> is not traced.
\<close>

definition jtoc_string :: "world \<Rightarrow> nat \<Rightarrow> jref \<Rightarrow> jref \<Rightarrow> string \<Rightarrow> state \<Rightarrow> string option \<times> state" where
  "jtoc_string w buffer_size class_ptr object_ptr method_name s =
     (case GetMethodID w class_ptr method_name ''()Ljava/lang/String;'' of
        None \<Rightarrow>
          (None, ERROR ''java plugin: jtoc_string: Cannot find method `String %s ()'.''
                   [Str method_name] s)
      | Some method_id \<Rightarrow>
          (case object_result w object_ptr method_id of
             None \<Rightarrow>
               (None, ERROR ''java plugin: jtoc_string: CallObjectMethod (%s) failed.''
                        [Str method_name] s)
           | Some string_obj \<Rightarrow>
               (case string_chars w string_obj of
                  None \<Rightarrow>
                    (None, DeleteLocalRef string_obj
                       (ERROR ''java plugin: jtoc_string: GetStringUTFChars failed.'' [] s))
                | Some c_str \<Rightarrow>
                    (Some (sstrncpy buffer_size c_str), DeleteLocalRef string_obj s))))"

definition jtoc_long :: "world \<Rightarrow> jref \<Rightarrow> jref \<Rightarrow> string \<Rightarrow> state \<Rightarrow> jlong option \<times> state" where
  "jtoc_long w class_ptr object_ptr method_name s =
     (case GetMethodID w class_ptr method_name ''()J'' of
        None \<Rightarrow>
          (None, ERROR ''java plugin: jtoc_long: Cannot find method `long %s ()'.''
                   [Str method_name] s)
      | Some method_id \<Rightarrow> (Some (long_result w object_ptr method_id), s))"

definition jtoc_double :: "world \<Rightarrow> jref \<Rightarrow> jref \<Rightarrow> string \<Rightarrow> state \<Rightarrow> jdouble option \<times> state" where
  "jtoc_double w class_ptr object_ptr method_name s =
     (case GetMethodID w class_ptr method_name ''()D'' of
        None \<Rightarrow>
          (None, ERROR ''java plugin: jtoc_string: Cannot find method `double %s ()'.''
                   [Str method_name] s)
      | Some method_id \<Rightarrow> (Some (double_result w object_ptr method_id), s))"

text \<open>
  \<open>jtoc_value\<close> passes the result of \<open>GetObjectClass\<close> to \<open>GetMethodID\<close> unchecked; a NULL
  class there is outside what JNI defines.
\<close>

definition jtoc_value :: "world \<Rightarrow> int \<Rightarrow> jref \<Rightarrow> state \<Rightarrow> (value_t option \<times> state) outcome" where
  "jtoc_value w dstype object_ptr s =
     (case object_class w object_ptr of
        None \<Rightarrow> Crashed
      | Some class_ptr \<Rightarrow>
          if dstype = DS_TYPE_COUNTER then
            (case jtoc_long w class_ptr object_ptr ''longValue'' s of
               (None, s1) \<Rightarrow> Returned (None, ERROR ''java plugin: jtoc_value: jtoc_long failed.'' [] s1)
             | (Some tmp_long, s1) \<Rightarrow> Returned (Some tmp_long, s1))
          else
            (case jtoc_double w class_ptr object_ptr ''doubleValue'' s of
               (None, s1) \<Rightarrow> Returned (None, ERROR ''java plugin: jtoc_value: jtoc_double failed.'' [] s1)
             | (Some tmp_double, s1) \<Rightarrow> Returned (Some tmp_double, s1)))"

text \<open>The loop of \<open>jtoc_values_array\<close>, from index \<open>i\<close> on.\<close>

fun jtoc_values_array_loop ::
  "world \<Rightarrow> jref \<Rightarrow> nat \<Rightarrow> data_source list \<Rightarrow> state \<Rightarrow> (value_t list option \<times> state) outcome" where
  "jtoc_values_array_loop w o_number_array i [] s = Returned (Some [], s)"
| "jtoc_values_array_loop w o_number_array i (d # dsrcs) s =
     (case array_element w o_number_array i of
        None \<Rightarrow>
          Returned (None, ERROR ''java plugin: jtoc_values_array: GetObjectArrayElement (%i) failed.''
                            [Num (int i)] s)
      | Some o_number \<Rightarrow>
          (case jtoc_value w (ds_type d) o_number s of
             Returned (None, s1) \<Rightarrow>
               Returned (None, ERROR ''java plugin: jtoc_values_array: jtoc_value (%i) failed.''
                                 [Num (int i)] s1)
           | Returned (Some v, s1) \<Rightarrow>
               (case jtoc_values_array_loop w o_number_array (Suc i) dsrcs s1 of
                  Returned (Some vs, s2) \<Rightarrow> Returned (Some (v # vs), s2)
                | Returned (None, s2) \<Rightarrow> Returned (None, s2)
                | Aborted \<Rightarrow> Aborted
                | Crashed \<Rightarrow> Crashed)
           | Aborted \<Rightarrow> Aborted
           | Crashed \<Rightarrow> Crashed))"

definition jtoc_values_array ::
  "world \<Rightarrow> data_set \<Rightarrow> jref \<Rightarrow> jref \<Rightarrow> state \<Rightarrow> (value_t list option \<times> state) outcome" where
  "jtoc_values_array w ds class_ptr object_ptr s =
     (case GetMethodID w class_ptr ''getValues'' ''()Ljava/util/List;'' of
        None \<Rightarrow>
          Returned (None, ERROR ''java plugin: jtoc_values_array: Cannot find method `List getValues ()'.'' [] s)
      | Some m_getvalues \<Rightarrow>
      (case object_result w object_ptr m_getvalues of
        None \<Rightarrow>
          Returned (None, ERROR ''java plugin: jtoc_values_array: CallObjectMethod (getValues) failed.'' [] s)
      | Some o_list \<Rightarrow>
      (case object_class w o_list of
        None \<Rightarrow> Crashed
      | Some c_list \<Rightarrow>
      (case GetMethodID w c_list ''toArray'' ''()[Ljava/lang/Object;'' of
        None \<Rightarrow>
          Returned (None, DeleteLocalRef o_list
            (ERROR ''java plugin: jtoc_values_array: Cannot find method `Object[] toArray ()'.'' [] s))
      | Some m_toarray \<Rightarrow>
      (case object_result w o_list m_toarray of
        None \<Rightarrow>
          Returned (None, DeleteLocalRef o_list
            (ERROR ''java plugin: jtoc_values_array: CallObjectMethod (toArray) failed.'' [] s))
      | Some o_number_array \<Rightarrow>
      (case c_alloc w s of
        (False, s1) \<Rightarrow>
          Returned (None, DeleteLocalRef o_list (DeleteLocalRef o_number_array
            (ERROR ''java plugin: jtoc_values_array: calloc failed.'' [] s1)))
      | (True, s1) \<Rightarrow>
      (case jtoc_values_array_loop w o_number_array 0 (dset_ds ds) s1 of
        Returned (None, s2) \<Rightarrow>
          Returned (None, DeleteLocalRef o_list (DeleteLocalRef o_number_array s2))
      | Returned (Some vals, s2) \<Rightarrow>
          Returned (Some vals, DeleteLocalRef o_list (DeleteLocalRef o_number_array s2))
      | Aborted \<Rightarrow> Aborted
      | Crashed \<Rightarrow> Crashed)))))))"

text \<open>
  Division of two \<open>jlong\<close>s in C truncates towards zero: \<open>sdiv\<close> on the signed values.
\<close>

definition jlong_div :: "jlong \<Rightarrow> jlong \<Rightarrow> jlong" where
  "jlong_div a b = word_of_int (sint a sdiv sint b)"

text \<open>
  \<open>jtoc_value_list\<close> fills the \<open>value_list_t\<close> field by field and returns at the first
  failure with what has been filled so far. The time is stored as
  \<open>(time_t) (tmp_long / ((jlong) 1000))\<close>, C's division that truncates towards zero; the
  interval as \<open>(int) tmp_long\<close>.
\<close>

definition jtoc_value_list ::
  "world \<Rightarrow> value_list \<Rightarrow> jref \<Rightarrow> state \<Rightarrow> (int \<times> value_list \<times> state) outcome" where
  "jtoc_value_list w vl object_ptr s =
     (case object_class w object_ptr of
        None \<Rightarrow>
          Returned (- 1, vl, ERROR ''java plugin: jtoc_value_list: GetObjectClass failed.'' [] s)
      | Some class_ptr \<Rightarrow>
      (case jtoc_string w (name_len w) class_ptr object_ptr ''getType'' s of
        (None, s1) \<Rightarrow>
          Returned (- 1, vl, ERROR ''java plugin: jtoc_value_list: jtoc_string (%s) failed.'' [Str ''getType''] s1)
      | (Some b1, s1) \<Rightarrow>
      (case get_ds w b1 of
        None \<Rightarrow>
          Returned (- 1, vl\<lparr>vl_type := b1\<rparr>,
            ERROR ''java plugin: jtoc_value_list: Data-set `%s' is not defined. Please consult the types.db(5) manpage for mor information.''
              [Str b1] s1)
      | Some ds \<Rightarrow>
      (case jtoc_string w (name_len w) class_ptr object_ptr ''getHost'' s1 of
        (None, s2) \<Rightarrow>
          Returned (- 1, vl\<lparr>vl_type := b1\<rparr>,
            ERROR ''java plugin: jtoc_value_list: jtoc_string (%s) failed.'' [Str ''getHost''] s2)
      | (Some b2, s2) \<Rightarrow>
      (case jtoc_string w (name_len w) class_ptr object_ptr ''getPlugin'' s2 of
        (None, s3) \<Rightarrow>
          Returned (- 1, vl\<lparr>vl_type := b1, vl_host := b2\<rparr>,
            ERROR ''java plugin: jtoc_value_list: jtoc_string (%s) failed.'' [Str ''getPlugin''] s3)
      | (Some b3, s3) \<Rightarrow>
      (case jtoc_string w (name_len w) class_ptr object_ptr ''getPluginInstance'' s3 of
        (None, s4) \<Rightarrow>
          Returned (- 1, vl\<lparr>vl_type := b1, vl_host := b2, vl_plugin := b3\<rparr>,
            ERROR ''java plugin: jtoc_value_list: jtoc_string (%s) failed.'' [Str ''getPluginInstance''] s4)
      | (Some b4, s4) \<Rightarrow>
      (case jtoc_string w (name_len w) class_ptr object_ptr ''getTypeInstance'' s4 of
        (None, s5) \<Rightarrow>
          Returned (- 1, vl\<lparr>vl_type := b1, vl_host := b2, vl_plugin := b3, vl_plugin_instance := b4\<rparr>,
            ERROR ''java plugin: jtoc_value_list: jtoc_string (%s) failed.'' [Str ''getTypeInstance''] s5)
      | (Some b5, s5) \<Rightarrow>
      (let vl5 = vl\<lparr>vl_type := b1, vl_host := b2, vl_plugin := b3, vl_plugin_instance := b4,
                     vl_type_instance := b5\<rparr> in
      (case jtoc_long w class_ptr object_ptr ''getTime'' s5 of
        (None, s6) \<Rightarrow>
          Returned (- 1, vl5, ERROR ''java plugin: jtoc_value_list: jtoc_long (getTime) failed.'' [] s6)
      | (Some tmp_long, s6) \<Rightarrow>
      (let vl6 = vl5\<lparr>vl_time := jlong_div tmp_long 1000\<rparr> in
      (case jtoc_long w class_ptr object_ptr ''getInterval'' s6 of
        (None, s7) \<Rightarrow>
          Returned (- 1, vl6, ERROR ''java plugin: jtoc_value_list: jtoc_long (getInterval) failed.'' [] s7)
      | (Some tmp_long', s7) \<Rightarrow>
      (let vl7 = vl6\<lparr>vl_interval := ucast tmp_long'\<rparr> in
      (case jtoc_values_array w ds class_ptr object_ptr s7 of
        Returned (None, s8) \<Rightarrow>
          Returned (- 1, vl7, ERROR ''java plugin: jtoc_value_list: jtoc_values_array failed.'' [] s8)
      | Returned (Some vals, s8) \<Rightarrow> Returned (0, vl7\<lparr>vl_values := vals\<rparr>, s8)
      | Aborted \<Rightarrow> Aborted
      | Crashed \<Rightarrow> Crashed)))))))))))))"

section \<open>Functions accessible from Java\<close>

text \<open>
  \<open>plugin_dispatch_values\<close> is the daemon's: the call is an event, its status an answer
  of the world.
\<close>

definition plugin_dispatch_values :: "world \<Rightarrow> value_list \<Rightarrow> state \<Rightarrow> int \<times> state" where
  "plugin_dispatch_values w vl s = (dispatch_status w vl, emit (plugin_dispatch_values_ev vl) s)"

definition cjni_api_dispatch_values :: "world \<Rightarrow> jref \<Rightarrow> state \<Rightarrow> (int \<times> state) outcome" where
  "cjni_api_dispatch_values w java_vl s =
     (case jtoc_value_list w (vl_init w) java_vl s of
        Returned (status, vl, s1) \<Rightarrow>
          if status \<noteq> 0 then
            Returned (- 1, ERROR ''java plugin: cjni_api_dispatch_values: jtoc_value_list failed.'' [] s1)
          else Returned (plugin_dispatch_values w vl s1)
      | Aborted \<Rightarrow> Aborted
      | Crashed \<Rightarrow> Crashed)"

section \<open>Callback descriptors\<close>

text \<open>The \<open>switch\<close> of \<open>cjni_callback_info_create\<close>: method name and signature by type.\<close>

definition callback_method :: "int \<Rightarrow> (string \<times> string) option" where
  "callback_method t =
     (if t = CB_TYPE_CONFIG then Some (''Config'', ''(Lorg/collectd/api/OConfigItem;)I'')
      else if t = CB_TYPE_INIT then Some (''Init'', ''()I'')
      else if t = CB_TYPE_READ then Some (''Read'', ''()I'')
      else if t = CB_TYPE_WRITE then Some (''Write'', ''(Lorg/collectd/api/ValueList;)I'')
      else if t = CB_TYPE_SHUTDOWN then Some (''Shutdown'', ''()I'')
      else None)"

text \<open>
  \<open>cjni_callback_info_create\<close>. The source assigns \<open>cbi->object = o_callback\<close> and, once
  the method is found, calls \<open>NewGlobalRef (jvm_env, o_callback)\<close> as a statement: the
  reference it returns is not stored anywhere.
\<close>

definition cjni_callback_info_create ::
  "world \<Rightarrow> jref \<Rightarrow> jref \<Rightarrow> int \<Rightarrow> state \<Rightarrow> cjni_callback_info option \<times> state" where
  "cjni_callback_info_create w o_name o_callback t s =
     (case callback_method t of
        None \<Rightarrow>
          (None, ERROR ''java plugin: cjni_callback_info_create: Unknown type: %#x'' [Num t] s)
      | Some (method_name, method_signature) \<Rightarrow>
      (case string_chars w o_name of
        None \<Rightarrow>
          (None, ERROR ''java plugin: cjni_callback_info_create: GetStringUTFChars failed.'' [] s)
      | Some c_name \<Rightarrow>
      (case c_alloc w s of
        (False, s1) \<Rightarrow>
          (None, ERROR ''java plugin: cjni_callback_info_create: malloc failed.'' [] s1)
      | (True, s1) \<Rightarrow>
      (case strdup w c_name s1 of
        (None, s2) \<Rightarrow>
          (None, ERROR ''java plugin: cjni_callback_info_create: strdup failed.'' [] s2)
      | (Some nm, s2) \<Rightarrow>
      (case object_class w o_callback of
        None \<Rightarrow>
          (None, ERROR ''java plugin: cjni_callback_info_create: GetObjectClass failed.'' [] s2)
      | Some cls \<Rightarrow>
      (case GetMethodID w cls method_name method_signature of
        None \<Rightarrow>
          (None, ERROR ''java plugin: cjni_callback_info_create: Cannot find the `%s' method with signature `%s'.''
                   [Str method_name, Str method_signature] s2)
      | Some m \<Rightarrow>
      (case NewGlobalRef w o_callback s2 of
        (unused, s3) \<Rightarrow>
          (Some \<lparr>cb_name = nm, cb_type = t, cb_class = Some cls,
                  cb_object = Some o_callback, cb_method = Some m\<rparr>, s3))))))))"

text \<open>
  \<open>cjni_callback_register\<close> appends the descriptor to \<open>java_callbacks\<close> (config, init and
  shutdown callbacks).
\<close>

definition cjni_callback_register :: "world \<Rightarrow> jref \<Rightarrow> jref \<Rightarrow> int \<Rightarrow> state \<Rightarrow> int \<times> state" where
  "cjni_callback_register w o_name o_callback t s =
     (case cjni_callback_info_create w o_name o_callback t s of
        (None, s1) \<Rightarrow> (- 1, s1)
      | (Some cbi, s1) \<Rightarrow>
          (case c_alloc w s1 of
             (False, s2) \<Rightarrow>
               (- 1, (case cb_object cbi of
                        Some obj \<Rightarrow> DeleteGlobalRef obj
                      | None \<Rightarrow> id)
                       (ERROR ''java plugin: cjni_callback_register: realloc failed.'' [] s2))
           | (True, s2) \<Rightarrow> (0, s2\<lparr>java_callbacks := java_callbacks s2 @ [cbi]\<rparr>)))"

definition cjni_api_register_config :: "world \<Rightarrow> jref \<Rightarrow> jref \<Rightarrow> state \<Rightarrow> int \<times> state" where
  "cjni_api_register_config w o_name o_config s =
     cjni_callback_register w o_name o_config CB_TYPE_CONFIG s"

definition cjni_api_register_init :: "world \<Rightarrow> jref \<Rightarrow> jref \<Rightarrow> state \<Rightarrow> int \<times> state" where
  "cjni_api_register_init w o_name o_config s =
     cjni_callback_register w o_name o_config CB_TYPE_INIT s"

definition cjni_api_register_shutdown :: "world \<Rightarrow> jref \<Rightarrow> jref \<Rightarrow> state \<Rightarrow> int \<times> state" where
  "cjni_api_register_shutdown w o_name o_shutdown s =
     cjni_callback_register w o_name o_shutdown CB_TYPE_SHUTDOWN s"

definition cjni_api_register_read :: "world \<Rightarrow> jref \<Rightarrow> jref \<Rightarrow> state \<Rightarrow> int \<times> state" where
  "cjni_api_register_read w o_name o_read s =
     (case cjni_callback_info_create w o_name o_read CB_TYPE_READ s of
        (None, s1) \<Rightarrow> (- 1, s1)
      | (Some cbi, s1) \<Rightarrow>
          (0, DeleteLocalRef o_read (emit (plugin_register_complex_read_ev (cb_name cbi) cbi) s1)))"

definition cjni_api_register_write :: "world \<Rightarrow> jref \<Rightarrow> jref \<Rightarrow> state \<Rightarrow> int \<times> state" where
  "cjni_api_register_write w o_name o_write s =
     (case cjni_callback_info_create w o_name o_write CB_TYPE_WRITE s of
        (None, s1) \<Rightarrow> (- 1, s1)
      | (Some cbi, s1) \<Rightarrow>
          (0, DeleteLocalRef o_write (emit (plugin_register_write_ev (cb_name cbi) cbi) s1)))"

section \<open>Configuration\<close>

text \<open>The \<open>for\<close> loop of \<open>cjni_config_plugin_block\<close>: is there a stored block of that name?\<close>

fun config_name_stored :: "java_plugin_config list \<Rightarrow> string \<Rightarrow> bool" where
  "config_name_stored [] nm = False"
| "config_name_stored (c # cs) nm = (if cfg_name c = nm then True else config_name_stored cs nm)"

definition cjni_config_plugin_block :: "world \<Rightarrow> oconfig_item \<Rightarrow> state \<Rightarrow> int \<times> state" where
  \<open>cjni_config_plugin_block w ci s =
     (case ci_values ci of
        [OCONFIG_TYPE_STRING str] \<Rightarrow>
          (case strdup w str s of
             (None, s1) \<Rightarrow>
               (- 1, ERROR ''java plugin: cjni_config_plugin_block: strdup faiiled.'' [] s1)
           | (Some nm, s1) \<Rightarrow>
               if config_name_stored (java_plugin_configs s1) nm then
                 (0, WARNING ''java plugin: There is more than one <Plugin "%s"> block. This is currently not supported - only the first block will be used!''
                       [Str nm] s1)
               else
                 (case c_alloc w s1 of
                    (False, s2) \<Rightarrow>
                      (- 1, ERROR ''java plugin: cjni_config_plugin_block: realloc failed.'' [] s2)
                  | (True, s2) \<Rightarrow>
                      (case oconfig_clone w ci s2 of
                         (None, s3) \<Rightarrow>
                           (- 1, ERROR ''java plugin: cjni_config_plugin_block: oconfig_clone failed for `%s'.''
                                   [Str nm] s3)
                       | (Some copy, s3) \<Rightarrow>
                           (0, s3\<lparr>java_plugin_configs :=
                                    java_plugin_configs s3 @ [\<lparr>cfg_name = nm, cfg_ci = Some copy\<rparr>]\<rparr>))))
      | _ \<Rightarrow>
          (- 1, WARNING ''java plugin: `Plugin' blocks need exactly one string argument.'' [] s))\<close>

section \<open>Read and write callbacks\<close>

text \<open>
  The \<open>user_data_t\<close> of a read or write callback carries the descriptor; \<open>None\<close> stands for
  \<open>ud == NULL\<close> or \<open>ud->data == NULL\<close>. Calling a method on a NULL object or with a NULL
  method id is outside what JNI defines.
\<close>

definition cjni_read :: "world \<Rightarrow> cjni_callback_info option \<Rightarrow> state \<Rightarrow> (int \<times> state) outcome" where
  "cjni_read w ud s =
     (if jvm s = None then Returned (- 1, ERROR ''java plugin: cjni_read: jvm == NULL'' [] s)
      else
      (case ud of
        None \<Rightarrow> Returned (- 1, ERROR ''java plugin: cjni_read: Invalid user data.'' [] s)
      | Some cbi \<Rightarrow>
      (case cjni_thread_attach w s of
        Returned (None, s1) \<Rightarrow> Returned (- 1, s1)
      | Returned (Some env, s1) \<Rightarrow>
          (case (cb_object cbi, cb_method cbi) of
             (Some obj, Some m) \<Rightarrow>
               (case CallIntMethod w obj m [] s1 of
                  (status, s2) \<Rightarrow>
                    (case cjni_thread_detach w s2 of
                       Returned (status', s3) \<Rightarrow>
                         if status' \<noteq> 0 then
                           Returned (- 1, ERROR ''java plugin: cjni_read: cjni_thread_detach failed.'' [] s3)
                         else Returned (status', s3)
                     | Aborted \<Rightarrow> Aborted
                     | Crashed \<Rightarrow> Crashed))
           | _ \<Rightarrow> Crashed)
      | Aborted \<Rightarrow> Aborted
      | Crashed \<Rightarrow> Crashed)))"

definition cjni_write ::
  "world \<Rightarrow> data_set \<Rightarrow> value_list \<Rightarrow> cjni_callback_info option \<Rightarrow> state \<Rightarrow> (int \<times> state) outcome" where
  "cjni_write w ds vl ud s =
     (if jvm s = None then Returned (- 1, ERROR ''java plugin: cjni_write: jvm == NULL'' [] s)
      else
      (case ud of
        None \<Rightarrow> Returned (- 1, ERROR ''java plugin: cjni_write: Invalid user data.'' [] s)
      | Some cbi \<Rightarrow>
      (case cjni_thread_attach w s of
        Returned (None, s1) \<Rightarrow> Returned (- 1, s1)
      | Returned (Some env, s1) \<Rightarrow>
          (case ctoj_value_list w ds vl s1 of
             Returned (None, s2) \<Rightarrow>
               Returned (- 1, ERROR ''java plugin: cjni_write: ctoj_value_list failed.'' [] s2)
           | Returned (Some vl_java, s2) \<Rightarrow>
               (case (cb_object cbi, cb_method cbi) of
                  (Some obj, Some m) \<Rightarrow>
                    (case CallIntMethod w obj m [JObject vl_java] s2 of
                       (status, s3) \<Rightarrow>
                         (case cjni_thread_detach w (DeleteLocalRef vl_java s3) of
                            Returned (status', s4) \<Rightarrow>
                              if status' \<noteq> 0 then
                                Returned (- 1, ERROR ''java plugin: cjni_write: cjni_thread_detach failed.'' [] s4)
                              else Returned (status', s4)
                          | Aborted \<Rightarrow> Aborted
                          | Crashed \<Rightarrow> Crashed))
                | _ \<Rightarrow> Crashed)
           | Aborted \<Rightarrow> Aborted
           | Crashed \<Rightarrow> Crashed)
      | Aborted \<Rightarrow> Aborted
      | Crashed \<Rightarrow> Crashed)))"

section \<open>Loading, initialising and shutting down\<close>

text \<open>
  One round of the loop of \<open>cjni_load_plugins\<close>. As in \<open>cjni_callback_info_create\<close>,
  \<open>NewGlobalRef\<close> is called as a statement and \<open>class->object\<close> keeps the result of
  \<open>NewObject\<close>.
\<close>

definition cjni_load_plugin_class ::
  "world \<Rightarrow> java_plugin_class \<Rightarrow> state \<Rightarrow> java_plugin_class \<times> state" where
  "cjni_load_plugin_class w cl s =
     (case FindClass w (cls_name cl) of
        None \<Rightarrow>
          (cl\<lparr>cls_class := None\<rparr>,
           ERROR ''java plugin: cjni_load_plugins: FindClass (%s) failed.'' [Str (cls_name cl)] s)
      | Some c \<Rightarrow>
          (case GetMethodID w c ''<init>'' ''()V'' of
             None \<Rightarrow>
               (cl\<lparr>cls_class := Some c\<rparr>,
                ERROR ''java plugin: cjni_load_plugins: Could not find the constructor for `%s'.''
                  [Str (cls_name cl)] s)
           | Some constructor_id \<Rightarrow>
               (case NewObject w c constructor_id [] s of
                  (None, s1) \<Rightarrow>
                    (cl\<lparr>cls_class := Some c, cls_object := None\<rparr>,
                     ERROR ''java plugin: cjni_load_plugins: Could create a new `%s' object.''
                       [Str (cls_name cl)] s1)
                | (Some obj, s1) \<Rightarrow>
                    (case NewGlobalRef w obj s1 of
                       (unused, s2) \<Rightarrow> (cl\<lparr>cls_class := Some c, cls_object := Some obj\<rparr>, s2)))))"

fun cjni_load_plugins_loop ::
  "world \<Rightarrow> java_plugin_class list \<Rightarrow> state \<Rightarrow> java_plugin_class list \<times> state" where
  "cjni_load_plugins_loop w [] s = ([], s)"
| "cjni_load_plugins_loop w (cl # cls) s =
     (case cjni_load_plugin_class w cl s of
        (cl', s1) \<Rightarrow>
          (case cjni_load_plugins_loop w cls s1 of
             (cls', s2) \<Rightarrow> (cl' # cls', s2)))"

definition cjni_load_plugins :: "world \<Rightarrow> state \<Rightarrow> int \<times> state" where
  "cjni_load_plugins w s =
     (case cjni_load_plugins_loop w (java_classes_list s) s of
        (cls', s1) \<Rightarrow> (0, s1\<lparr>java_classes_list := cls'\<rparr>))"

definition plugin_unregister_read :: "string \<Rightarrow> state \<Rightarrow> state" where
  "plugin_unregister_read nm s = emit (plugin_unregister_read_ev nm) s"

text \<open>The loop of \<open>cjni_init_plugins\<close> over \<open>java_callbacks\<close>, in the order of the array.\<close>

fun cjni_init_plugins_loop :: "world \<Rightarrow> cjni_callback_info list \<Rightarrow> state \<Rightarrow> state outcome" where
  "cjni_init_plugins_loop w [] s = Returned s"
| "cjni_init_plugins_loop w (cb # cbs) s =
     (if cb_type cb \<noteq> CB_TYPE_INIT then cjni_init_plugins_loop w cbs s
      else
        (case (cb_object cb, cb_method cb) of
           (Some obj, Some m) \<Rightarrow>
             (case CallIntMethod w obj m [] s of
                (status, s1) \<Rightarrow>
                  if status \<noteq> 0 then
                    cjni_init_plugins_loop w cbs
                      (plugin_unregister_read (cb_name cb)
                         (ERROR ''java plugin: Initializing `%s' failed with status %i. Removing read function.''
                            [Str (cb_name cb), Num status] s1))
                  else cjni_init_plugins_loop w cbs s1)
         | _ \<Rightarrow> Crashed))"

definition cjni_init_plugins :: "world \<Rightarrow> state \<Rightarrow> (int \<times> state) outcome" where
  "cjni_init_plugins w s =
     (case cjni_init_plugins_loop w (java_callbacks s) s of
        Returned s1 \<Rightarrow> Returned (0, s1)
      | Aborted \<Rightarrow> Aborted
      | Crashed \<Rightarrow> Crashed)"

fun cjni_shutdown_plugins_loop :: "world \<Rightarrow> cjni_callback_info list \<Rightarrow> state \<Rightarrow> state outcome" where
  "cjni_shutdown_plugins_loop w [] s = Returned s"
| "cjni_shutdown_plugins_loop w (cb # cbs) s =
     (if cb_type cb \<noteq> CB_TYPE_SHUTDOWN then cjni_shutdown_plugins_loop w cbs s
      else
        (case (cb_object cb, cb_method cb) of
           (Some obj, Some m) \<Rightarrow>
             (case CallIntMethod w obj m [] s of
                (status, s1) \<Rightarrow>
                  if status \<noteq> 0 then
                    cjni_shutdown_plugins_loop w cbs
                      (ERROR ''java plugin: Shutting down `%s' failed with status %i. ''
                         [Str (cb_name cb), Num status] s1)
                  else cjni_shutdown_plugins_loop w cbs s1)
         | _ \<Rightarrow> Crashed))"

definition cjni_shutdown_plugins :: "world \<Rightarrow> state \<Rightarrow> (int \<times> state) outcome" where
  "cjni_shutdown_plugins w s =
     (case cjni_shutdown_plugins_loop w (java_callbacks s) s of
        Returned s1 \<Rightarrow> Returned (0, s1)
      | Aborted \<Rightarrow> Aborted
      | Crashed \<Rightarrow> Crashed)"

text \<open>
  The two release loops of \<open>cjni_shutdown\<close>: \<open>DeleteGlobalRef\<close> on the \<open>object\<close> field of
  every entry where it is not NULL.
\<close>

fun release_callbacks :: "cjni_callback_info list \<Rightarrow> state \<Rightarrow> state" where
  "release_callbacks [] s = s"
| "release_callbacks (cb # cbs) s =
     release_callbacks cbs
       (case cb_object cb of Some obj \<Rightarrow> DeleteGlobalRef obj s | None \<Rightarrow> s)"

fun release_classes :: "java_plugin_class list \<Rightarrow> state \<Rightarrow> state" where
  "release_classes [] s = s"
| "release_classes (cl # cls) s =
     release_classes cls
       (case cls_object cl of Some obj \<Rightarrow> DeleteGlobalRef obj s | None \<Rightarrow> s)"

text \<open>
  \<open>cjni_shutdown\<close>: nothing when \<open>jvm\<close> is NULL; otherwise attach, run the shutdown
  callbacks, release, destroy the JVM and clear every global. \<open>pthread_key_delete\<close> drops
  the thread-specific binding.
\<close>

definition cjni_shutdown :: "world \<Rightarrow> state \<Rightarrow> (int \<times> state) outcome" where
  "cjni_shutdown w s =
     (if jvm s = None then Returned (0, s)
      else
        (case AttachCurrentThread w s of
           (status, env, s1) \<Rightarrow>
             if status \<noteq> 0 then
               Returned (- 1,
                 ERROR ''java plugin: cjni_shutdown: AttachCurrentThread failed with status %i.''
                   [Num status] s1)
             else
               (case cjni_shutdown_plugins w s1 of
                  Returned (unused, s2) \<Rightarrow>
                    (let s3 = (release_callbacks (java_callbacks s2) s2)\<lparr>java_callbacks := []\<rparr>;
                         s4 = (release_classes (java_classes_list s3) s3)\<lparr>java_classes_list := []\<rparr>;
                         s5 = (emit DestroyJavaVM_ev s4)\<lparr>jvm := None, cjni_env := None\<rparr>;
                         s6 = s5\<lparr>jvm_argv := [], java_plugin_configs := []\<rparr>
                     in Returned (0, s6))
                | Aborted \<Rightarrow> Aborted
                | Crashed \<Rightarrow> Crashed)))"

section \<open>Observations on the trace and scenarios\<close>

text \<open>The value lists handed to \<open>plugin_dispatch_values\<close>, oldest first.\<close>

fun dispatch_calls :: "event list \<Rightarrow> value_list list" where
  "dispatch_calls [] = []"
| "dispatch_calls (plugin_dispatch_values_ev vl # es) = vl # dispatch_calls es"
| "dispatch_calls (e # es) = dispatch_calls es"

text \<open>How often the thread was attached to, and detached from, the JVM.\<close>

fun runtime_attaches :: "event list \<Rightarrow> nat" where
  "runtime_attaches [] = 0"
| "runtime_attaches (AttachCurrentThread_ev st # es) = Suc (runtime_attaches es)"
| "runtime_attaches (e # es) = runtime_attaches es"

fun runtime_detaches :: "event list \<Rightarrow> nat" where
  "runtime_detaches [] = 0"
| "runtime_detaches (DetachCurrentThread_ev st # es) = Suc (runtime_detaches es)"
| "runtime_detaches (e # es) = runtime_detaches es"

text \<open>The global references the JVM has handed out, and the references released.\<close>

fun global_refs_created :: "event list \<Rightarrow> jref list" where
  "global_refs_created [] = []"
| "global_refs_created (NewGlobalRef_ev obj (Some g) # es) = g # global_refs_created es"
| "global_refs_created (e # es) = global_refs_created es"

fun global_refs_deleted :: "event list \<Rightarrow> jref list" where
  "global_refs_deleted [] = []"
| "global_refs_deleted (DeleteGlobalRef_ev r # es) = r # global_refs_deleted es"
| "global_refs_deleted (e # es) = global_refs_deleted es"

text \<open>
  The managed side of a conversion is what the setters were called with: the argument
  of the last call of \<open>void name (long)\<close> on an object, and the names and arguments of all
  void methods called on an object, in order.
\<close>

fun long_setter_arg :: "jref \<Rightarrow> string \<Rightarrow> event \<Rightarrow> jlong option" where
  "long_setter_arg obj nm (CallVoidMethod_ev obj' (MethodID c n sg) [JLong v]) =
     (if obj' = obj \<and> n = nm then Some v else None)"
| "long_setter_arg obj nm e = None"

fun last_long_set :: "jref \<Rightarrow> string \<Rightarrow> event list \<Rightarrow> jlong option" where
  "last_long_set obj nm [] = None"
| "last_long_set obj nm (e # es) =
     (case last_long_set obj nm es of
        Some v \<Rightarrow> Some v
      | None \<Rightarrow> long_setter_arg obj nm e)"

fun void_calls_on :: "jref \<Rightarrow> event list \<Rightarrow> (string \<times> jvalue list) list" where
  "void_calls_on obj [] = []"
| "void_calls_on obj (CallVoidMethod_ev obj' (MethodID c n sg) args # es) =
     (if obj' = obj then (n, args) # void_calls_on obj es else void_calls_on obj es)"
| "void_calls_on obj (e # es) = void_calls_on obj es"

text \<open>The managed time and interval of the object a \<open>ctoj_value_list\<close> call returned.\<close>

definition managed_long :: "string \<Rightarrow> (jref option \<times> state) outcome \<Rightarrow> jlong option" where
  "managed_long nm r =
     (case r of
        Returned (Some obj, s) \<Rightarrow> last_long_set obj nm (events s)
      | _ \<Rightarrow> None)"

text \<open>The native value list a \<open>jtoc_value_list\<close> call filled, when it returned 0.\<close>

definition native_vl :: "(int \<times> value_list \<times> state) outcome \<Rightarrow> value_list option" where
  "native_vl r =
     (case r of
        Returned (status, vl, s) \<Rightarrow> (if status = 0 then Some vl else None)
      | _ \<Rightarrow> None)"

text \<open>The attach count of the thread: the counter of its binding, 0 without one.\<close>

definition attach_count :: "state \<Rightarrow> int" where
  "attach_count s = (case cjni_env s of None \<Rightarrow> 0 | Some e \<Rightarrow> reference_counter e)"

text \<open>A thread issuing a sequence of attach and detach calls.\<close>

datatype thread_op = Attach | Detach

fun run_thread_ops :: "world \<Rightarrow> thread_op list \<Rightarrow> state \<Rightarrow> state outcome" where
  "run_thread_ops w [] s = Returned s"
| "run_thread_ops w (Attach # ops) s =
     (case cjni_thread_attach w s of
        Returned (env, s1) \<Rightarrow> run_thread_ops w ops s1
      | Aborted \<Rightarrow> Aborted
      | Crashed \<Rightarrow> Crashed)"
| "run_thread_ops w (Detach # ops) s =
     (case cjni_thread_detach w s of
        Returned (status, s1) \<Rightarrow> run_thread_ops w ops s1
      | Aborted \<Rightarrow> Aborted
      | Crashed \<Rightarrow> Crashed)"

text \<open>
  What the transition from Configured to Initialized is specified to do for one Init
  callback: invoke it; on a non-zero status log the failure and withdraw the read
  registration of that name.
\<close>

definition init_callback_spec :: "world \<Rightarrow> cjni_callback_info \<Rightarrow> event list" where
  "init_callback_spec w cb =
     (case (cb_object cb, cb_method cb) of
        (Some obj, Some m) \<Rightarrow>
          CallIntMethod_ev obj m [] (int_result w obj m) #
          (if int_result w obj m \<noteq> 0 then
             [Log LOG_ERR ''java plugin: Initializing `%s' failed with status %i. Removing read function.''
                [Str (cb_name cb), Num (int_result w obj m)],
              plugin_unregister_read_ev (cb_name cb)]
           else [])
      | _ \<Rightarrow> [])"

definition is_init :: "cjni_callback_info \<Rightarrow> bool" where
  "is_init cb = (cb_type cb = CB_TYPE_INIT)"

definition callable :: "cjni_callback_info \<Rightarrow> bool" where
  "callable cb = (cb_object cb \<noteq> None \<and> cb_method cb \<noteq> None)"

text \<open>
  States of the thread binding: \<open>idle\<close> is no binding, or a binding with counter 0 and no
  context; \<open>attached n\<close> is a binding with a context and counter \<open>n\<close>. In both the JVM
  exists.
\<close>

definition idle :: "state \<Rightarrow> bool" where
  "idle s = (jvm s \<noteq> None \<and>
     (case cjni_env s of None \<Rightarrow> True | Some e \<Rightarrow> jvm_env e = None \<and> reference_counter e = 0))"

definition attached :: "int \<Rightarrow> state \<Rightarrow> bool" where
  "attached n s = (jvm s \<noteq> None \<and>
     (case cjni_env s of None \<Rightarrow> False | Some e \<Rightarrow> jvm_env e \<noteq> None \<and> reference_counter e = n))"

section \<open>Concrete worlds and inputs\<close>

text \<open>
  A world in which every lookup and allocation succeeds. The managed value list behind
  handle 7 has type \<open>example\<close>, time 1000000 ms, interval 10 and the values 5 and 2.5;
  the data set \<open>example\<close> has a counter \<open>count\<close> and a gauge \<open>ratio\<close>. Callback objects
  answer status 1, except object 8, which answers 0.
\<close>

definition example_ds :: data_set where
  "example_ds =
     \<lparr>dset_type = ''example'',
      dset_ds = [\<lparr>ds_name = ''count'', ds_type = DS_TYPE_COUNTER, ds_min = 0, ds_max = 0\<rparr>,
                 \<lparr>ds_name = ''ratio'', ds_type = DS_TYPE_GAUGE, ds_min = 0, ds_max = 0\<rparr>]\<rparr>"

definition example_vl :: value_list where
  "example_vl =
     \<lparr>vl_values = [5, 0x4004000000000000], vl_time = 1000, vl_interval = 10,
      vl_host = ''localhost'', vl_plugin = ''java'', vl_plugin_instance = [],
      vl_type = ''example'', vl_type_instance = []\<rparr>"

definition getter_object :: "jmethodID \<Rightarrow> jref option" where
  "getter_object m =
     (case m of MethodID c n sg \<Rightarrow>
        if n = ''getType'' then Some 71
        else if n = ''getHost'' then Some 72
        else if n = ''getPlugin'' then Some 73
        else if n = ''getPluginInstance'' then Some 74
        else if n = ''getTypeInstance'' then Some 74
        else if n = ''getValues'' then Some 75
        else if n = ''toArray'' then Some 76
        else None)"

definition getter_long :: "jmethodID \<Rightarrow> jlong" where
  "getter_long m =
     (case m of MethodID c n sg \<Rightarrow>
        if n = ''getTime'' then 1000000
        else if n = ''getInterval'' then 10
        else 5)"

definition w_ok :: world where
  "w_ok =
     \<lparr>alloc_fails = (\<lambda>n. False),
      find_class = map_of
        [(''org.collectd.api.ValueList'', 50), (''org.collectd.api.DataSet'', 51),
         (''org.collectd.api.DataSource'', 52), (''org.collectd.api.OConfigItem'', 53),
         (''org.collectd.api.OConfigValue'', 54), (''java.lang.Long'', 55),
         (''java.lang.Double'', 56), (''org.example.Monitor'', 57)],
      method_exists = (\<lambda>c n sg. True),
      object_class = (\<lambda>obj. Some 60),
      object_result = (\<lambda>obj m. getter_object m),
      string_chars = map_of
        [(71, ''example''), (72, ''localhost''), (73, ''java''), (74, []), (3, ''myplugin'')],
      long_result = (\<lambda>obj m. getter_long m),
      double_result = (\<lambda>obj m. 0x4004000000000000),
      int_result = (\<lambda>obj m. if obj = 8 then 0 else 1),
      array_element = (\<lambda>arr i. if i < 2 then Some (80 + i) else None),
      attach_status = (\<lambda>n. 0),
      detach_status = (\<lambda>n. 0),
      get_ds = map_of [(''example'', example_ds)],
      dispatch_status = (\<lambda>vl. 0),
      name_len = 64,
      vl_init = \<lparr>vl_values = [], vl_time = 0, vl_interval = 10, vl_host = ''localhost'',
                 vl_plugin = [], vl_plugin_instance = [], vl_type = [], vl_type_instance = []\<rparr>\<rparr>"

text \<open>The same world without any data set, and without the class \<open>ValueList\<close>.\<close>

definition w_no_ds :: world where
  "w_no_ds = w_ok\<lparr>get_ds := (\<lambda>nm. None)\<rparr>"

definition w_no_class :: world where
  "w_no_class = w_ok\<lparr>find_class := (\<lambda>nm. None)\<rparr>"

text \<open>A state after the JVM was created, with nothing registered and the thread unbound.\<close>

definition s_started :: state where
  "s_started =
     \<lparr>jvm = Some 1, cjni_env = None, jvm_argv = [], java_classes_list = [],
      java_plugin_configs = [], java_callbacks = [], tick = 100, events = []\<rparr>"

text \<open>The same state with the thread attached once.\<close>

definition s_attached :: state where
  "s_attached = s_started\<lparr>cjni_env := Some \<lparr>jvm_env = Some 9, reference_counter = 1\<rparr>\<rparr>"

text \<open>Configuration blocks: two \<open><Plugin "foo">\<close> blocks with different contents.\<close>

definition block_foo_first :: oconfig_item where
  "block_foo_first =
     OConfigItem ''Plugin'' [OCONFIG_TYPE_STRING ''foo'']
       [OConfigItem ''Port'' [OCONFIG_TYPE_NUMBER 0x40C3880000000000] []]"

definition block_foo_second :: oconfig_item where
  "block_foo_second =
     OConfigItem ''Plugin'' [OCONFIG_TYPE_STRING ''foo'']
       [OConfigItem ''Verbose'' [OCONFIG_TYPE_BOOLEAN 1] []]"

definition s_foo_stored :: state where
  "s_foo_stored =
     s_started\<lparr>java_plugin_configs := [\<lparr>cfg_name = ''foo'', cfg_ci = Some block_foo_first\<rparr>]\<rparr>"

text \<open>Callback descriptors: an Init callback on object 6, one on object 8, a Config one.\<close>

definition cb_init_failing :: cjni_callback_info where
  "cb_init_failing =
     \<lparr>cb_name = ''alpha'', cb_type = CB_TYPE_INIT, cb_class = Some 60, cb_object = Some 6,
      cb_method = Some (MethodID 60 ''Init'' ''()I'')\<rparr>"

definition cb_init_good :: cjni_callback_info where
  "cb_init_good =
     \<lparr>cb_name = ''beta'', cb_type = CB_TYPE_INIT, cb_class = Some 60, cb_object = Some 8,
      cb_method = Some (MethodID 60 ''Init'' ''()I'')\<rparr>"

definition cb_config :: cjni_callback_info where
  "cb_config =
     \<lparr>cb_name = ''alpha'', cb_type = CB_TYPE_CONFIG, cb_class = Some 60, cb_object = Some 6,
      cb_method = Some (MethodID 60 ''Config'' ''(Lorg/collectd/api/OConfigItem;)I'')\<rparr>"

definition cb_read :: cjni_callback_info where
  "cb_read =
     \<lparr>cb_name = ''alpha'', cb_type = CB_TYPE_READ, cb_class = Some 60, cb_object = Some 6,
      cb_method = Some (MethodID 60 ''Read'' ''()I'')\<rparr>"

definition s_registered :: state where
  "s_registered = s_started\<lparr>java_callbacks := [cb_config, cb_init_failing, cb_init_good]\<rparr>"

definition cb_write :: cjni_callback_info where
  "cb_write =
     \<lparr>cb_name = ''alpha'', cb_type = CB_TYPE_WRITE, cb_class = Some 60, cb_object = Some 6,
      cb_method = Some (MethodID 60 ''Write'' ''(Lorg/collectd/api/ValueList;)I'')\<rparr>"

text \<open>
  A run of the plugin: the class \<open>org.example.Monitor\<close> is configured and loaded, a
  shutdown callback named by string 3 is registered on object 6, and the plugin is shut
  down.
\<close>

definition s_configured :: state where
  "s_configured =
     s_started\<lparr>java_classes_list :=
       [\<lparr>cls_name = ''org.example.Monitor'', cls_class = None, cls_object = None\<rparr>]\<rparr>"

definition s_loaded :: state where
  "s_loaded = snd (cjni_load_plugins w_ok s_configured)"

definition s_running :: state where
  "s_running = snd (cjni_api_register_shutdown w_ok 3 6 s_loaded)"

definition s_stopped :: state where
  "s_stopped = (case cjni_shutdown w_ok s_running of Returned (r, s') \<Rightarrow> s' | _ \<Rightarrow> s_running)"

section \<open>Properties\<close>

subsection \<open>Unfolding the primitives and the concrete worlds\<close>

lemmas prim_defs = emit_def ERROR_def WARNING_def NOTICE_def c_alloc_def strdup_def
  oconfig_clone_def NewStringUTF_def NewObject_def NewGlobalRef_def CallVoidMethod_def
  CallIntMethod_def DeleteLocalRef_def DeleteGlobalRef_def AttachCurrentThread_def
  DetachCurrentThread_def fresh_ref_def FindClass_def GetMethodID_def

lemmas cb_type_defs = CB_TYPE_CONFIG_def CB_TYPE_INIT_def CB_TYPE_READ_def CB_TYPE_WRITE_def
  CB_TYPE_SHUTDOWN_def

lemmas world_defs = w_ok_def w_no_ds_def w_no_class_def getter_object_def getter_long_def
  example_ds_def example_vl_def DS_TYPE_COUNTER_def DS_TYPE_GAUGE_def

subsection \<open>Thread attachment is reference counted\<close>

lemma runtime_attaches_append [simp]:
  "runtime_attaches (xs @ ys) = runtime_attaches xs + runtime_attaches ys"
  by (induction xs rule: runtime_attaches.induct) simp_all

lemma runtime_detaches_append [simp]:
  "runtime_detaches (xs @ ys) = runtime_detaches xs + runtime_detaches ys"
  by (induction xs rule: runtime_detaches.induct) simp_all

lemma attach_idle:
  assumes "idle s" and "\<forall>n. \<not> alloc_fails w n" and "\<forall>n. attach_status w n = 0"
  shows "\<exists>env s1. cjni_thread_attach w s = Returned (Some env, s1) \<and> attached 1 s1
          \<and> runtime_attaches (events s1) = Suc (runtime_attaches (events s))
          \<and> runtime_detaches (events s1) = runtime_detaches (events s)"
  using assms
  by (auto simp: idle_def attached_def cjni_thread_attach_def prim_defs split: option.splits prod.splits)

lemma attach_nested:
  assumes "cjni_env s = Some e" and "0 < reference_counter e" and "jvm_env e = Some env"
  shows "cjni_thread_attach w s =
           Returned (Some env, s\<lparr>cjni_env := Some (e\<lparr>reference_counter := reference_counter e + 1\<rparr>)\<rparr>)"
  using assms by (simp add: cjni_thread_attach_def)

lemma attach_attached:
  assumes "attached n s" and "0 < n"
  shows "\<exists>env s1. cjni_thread_attach w s = Returned (Some env, s1) \<and> attached (n + 1) s1
          \<and> events s1 = events s"
  using assms
  by (auto simp: attached_def cjni_thread_attach_def split: option.splits)

lemma detach_nested:
  assumes "cjni_env s = Some e" and "1 < reference_counter e" and "jvm_env e \<noteq> None"
  shows "cjni_thread_detach w s =
           Returned (0, s\<lparr>cjni_env := Some (e\<lparr>reference_counter := reference_counter e - 1\<rparr>)\<rparr>)"
  using assms by (simp add: cjni_thread_detach_def)

lemma detach_attached:
  assumes "attached n s" and "1 < n"
  shows "\<exists>s1. cjni_thread_detach w s = Returned (0, s1) \<and> attached (n - 1) s1
          \<and> events s1 = events s"
  using assms
  by (auto simp: attached_def cjni_thread_detach_def split: option.splits)

lemma detach_last:
  assumes "attached 1 s"
  shows "\<exists>s1. cjni_thread_detach w s = Returned (0, s1) \<and> idle s1
          \<and> runtime_attaches (events s1) = runtime_attaches (events s)
          \<and> runtime_detaches (events s1) = Suc (runtime_detaches (events s))"
  using assms
  by (auto simp: attached_def idle_def cjni_thread_detach_def prim_defs Let_def split: option.splits)

text \<open>
  C3. A thread that starts unattached and issues attach, attach, detach, detach, with
  the allocation of the binding and the runtime attach succeeding, performs exactly one
  \<open>AttachCurrentThread\<close> and exactly one \<open>DetachCurrentThread\<close>; issuing attach, detach,
  attach, detach it performs exactly two of each. In general, an attach on a binding
  with a positive counter only increments the counter and returns the stored context,
  and a detach performs the runtime detach exactly when the counter was 1.
\<close>

theorem C3_attach_detach_reference_counting:
  assumes fresh: "idle s"
      and coop: "\<forall>n. \<not> alloc_fails w n" "\<forall>n. attach_status w n = 0"
      and nested: "cjni_env t = Some e" "0 < reference_counter e" "jvm_env e = Some env" "jvm t \<noteq> None"
  shows "(\<exists>s'. run_thread_ops w [Attach, Attach, Detach, Detach] s = Returned s'
            \<and> runtime_attaches (events s') = runtime_attaches (events s) + 1
            \<and> runtime_detaches (events s') = runtime_detaches (events s) + 1)
       \<and> (\<exists>s'. run_thread_ops w [Attach, Detach, Attach, Detach] s = Returned s'
            \<and> runtime_attaches (events s') = runtime_attaches (events s) + 2
            \<and> runtime_detaches (events s') = runtime_detaches (events s) + 2)
       \<and> cjni_thread_attach w t =
            Returned (Some env, t\<lparr>cjni_env := Some (e\<lparr>reference_counter := reference_counter e + 1\<rparr>)\<rparr>)
       \<and> (\<exists>t'. cjni_thread_detach w t = Returned (0, t')
            \<and> runtime_attaches (events t') = runtime_attaches (events t)
            \<and> runtime_detaches (events t') =
                runtime_detaches (events t) + (if reference_counter e = 1 then 1 else 0))"
proof -
  obtain e1 s1 where a1: "cjni_thread_attach w s = Returned (Some e1, s1)" "attached 1 s1"
      "runtime_attaches (events s1) = Suc (runtime_attaches (events s))"
      "runtime_detaches (events s1) = runtime_detaches (events s)"
    using attach_idle [OF fresh coop] by blast
  obtain e2 s2 where a2: "cjni_thread_attach w s1 = Returned (Some e2, s2)" "attached 2 s2"
      "events s2 = events s1"
    using attach_attached [OF a1(2), of w] by auto
  obtain s3 where d3: "cjni_thread_detach w s2 = Returned (0, s3)" "attached 1 s3"
      "events s3 = events s2"
    using detach_attached [OF a2(2), of w] by auto
  obtain s4 where d4: "cjni_thread_detach w s3 = Returned (0, s4)" "idle s4"
      "runtime_attaches (events s4) = runtime_attaches (events s3)"
      "runtime_detaches (events s4) = Suc (runtime_detaches (events s3))"
    using detach_last [OF d3(2), of w] by blast
  have aadd: "\<exists>s'. run_thread_ops w [Attach, Attach, Detach, Detach] s = Returned s'
            \<and> runtime_attaches (events s') = runtime_attaches (events s) + 1
            \<and> runtime_detaches (events s') = runtime_detaches (events s) + 1"
    using a1 a2 d3 d4 by simp
  obtain u2 where b2: "cjni_thread_detach w s1 = Returned (0, u2)" "idle u2"
      "runtime_attaches (events u2) = runtime_attaches (events s1)"
      "runtime_detaches (events u2) = Suc (runtime_detaches (events s1))"
    using detach_last [OF a1(2), of w] by blast
  obtain e3 u3 where b3: "cjni_thread_attach w u2 = Returned (Some e3, u3)" "attached 1 u3"
      "runtime_attaches (events u3) = Suc (runtime_attaches (events u2))"
      "runtime_detaches (events u3) = runtime_detaches (events u2)"
    using attach_idle [OF b2(2) coop] by blast
  obtain u4 where b4: "cjni_thread_detach w u3 = Returned (0, u4)" "idle u4"
      "runtime_attaches (events u4) = runtime_attaches (events u3)"
      "runtime_detaches (events u4) = Suc (runtime_detaches (events u3))"
    using detach_last [OF b3(2), of w] by blast
  have adad: "\<exists>s'. run_thread_ops w [Attach, Detach, Attach, Detach] s = Returned s'
            \<and> runtime_attaches (events s') = runtime_attaches (events s) + 2
            \<and> runtime_detaches (events s') = runtime_detaches (events s) + 2"
    using a1 b2 b3 b4 by simp
  have det: "\<exists>t'. cjni_thread_detach w t = Returned (0, t')
            \<and> runtime_attaches (events t') = runtime_attaches (events t)
            \<and> runtime_detaches (events t') =
                runtime_detaches (events t) + (if reference_counter e = 1 then 1 else 0)"
  proof (cases "reference_counter e = 1")
    case True
    with nested have "attached 1 t" by (simp add: attached_def)
    from detach_last [OF this, of w] True show ?thesis by auto
  next
    case False
    with nested have "1 < reference_counter e" by simp
    with nested False show ?thesis by (simp add: detach_nested)
  qed
  from aadd adad attach_nested [OF nested(1,2,3)] det show ?thesis by blast
qed


theorem C3_witness:
  "idle s_started
   \<and> (\<exists>s'. run_thread_ops w_ok [Attach, Attach, Detach, Detach] s_started = Returned s'
         \<and> runtime_attaches (events s') = runtime_attaches (events s_started) + 1
         \<and> runtime_detaches (events s') = runtime_detaches (events s_started) + 1)
   \<and> (\<exists>s'. run_thread_ops w_ok [Attach, Detach, Attach, Detach] s_started = Returned s'
         \<and> runtime_attaches (events s') = runtime_attaches (events s_started) + 2
         \<and> runtime_detaches (events s') = runtime_detaches (events s_started) + 2)
   \<and> cjni_thread_attach w_ok s_attached =
        Returned (Some 9, s_attached\<lparr>cjni_env := Some \<lparr>jvm_env = Some 9, reference_counter = 2\<rparr>\<rparr>)
   \<and> (\<exists>t'. cjni_thread_detach w_ok s_attached = Returned (0, t')
         \<and> runtime_attaches (events t') = runtime_attaches (events s_attached)
         \<and> runtime_detaches (events t') = runtime_detaches (events s_attached) + 1)"
proof -
  have h1: "idle s_started"
    by (simp add: idle_def s_started_def)
  have h2: "\<forall>n. \<not> alloc_fails w_ok n" and h3: "\<forall>n. attach_status w_ok n = 0"
    by (simp_all add: w_ok_def)
  have h4: "cjni_env s_attached = Some \<lparr>jvm_env = Some 9, reference_counter = 1\<rparr>"
    and h7: "jvm s_attached \<noteq> None"
    by (simp_all add: s_attached_def s_started_def)
  have h5: "0 < reference_counter \<lparr>jvm_env = Some 9, reference_counter = 1\<rparr>"
    and h6: "jvm_env \<lparr>jvm_env = Some 9, reference_counter = 1\<rparr> = Some 9"
    by simp_all
  from C3_attach_detach_reference_counting [OF h1 h2 h3 h4 h5 h6 h7] h1
  show ?thesis by simp
qed

subsection \<open>Dispatching values\<close>

lemma dispatch_calls_append [simp]:
  "dispatch_calls (xs @ ys) = dispatch_calls xs @ dispatch_calls ys"
  by (induction xs rule: dispatch_calls.induct) simp_all

lemma jtoc_string_dispatch:
  "jtoc_string w n c obj m s = (r, s') \<Longrightarrow> dispatch_calls (events s') = dispatch_calls (events s)"
  by (auto simp: jtoc_string_def prim_defs split: option.splits)

lemma jtoc_long_dispatch:
  "jtoc_long w c obj m s = (r, s') \<Longrightarrow> dispatch_calls (events s') = dispatch_calls (events s)"
  by (auto simp: jtoc_long_def prim_defs split: option.splits)

lemma jtoc_double_dispatch:
  "jtoc_double w c obj m s = (r, s') \<Longrightarrow> dispatch_calls (events s') = dispatch_calls (events s)"
  by (auto simp: jtoc_double_def prim_defs split: option.splits)

lemma jtoc_value_dispatch:
  "jtoc_value w t obj s = Returned (r, s') \<Longrightarrow> dispatch_calls (events s') = dispatch_calls (events s)"
  by (auto simp: jtoc_value_def ERROR_def emit_def split: option.splits if_splits prod.splits
           dest: jtoc_long_dispatch jtoc_double_dispatch)

lemma jtoc_values_array_loop_dispatch:
  "jtoc_values_array_loop w arr i dsrcs s = Returned (r, s') \<Longrightarrow>
     dispatch_calls (events s') = dispatch_calls (events s)"
proof (induction dsrcs arbitrary: i s r s')
  case Nil
  then show ?case by simp
next
  case (Cons d dsrcs)
  then show ?case
    by (auto simp: ERROR_def emit_def split: option.splits outcome.splits prod.splits
             dest!: jtoc_value_dispatch)
qed

lemma jtoc_values_array_dispatch:
  "jtoc_values_array w ds c obj s = Returned (r, s') \<Longrightarrow>
     dispatch_calls (events s') = dispatch_calls (events s)"
  by (auto simp: jtoc_values_array_def prim_defs split: option.splits outcome.splits prod.splits bool.splits
           dest!: jtoc_values_array_loop_dispatch)

lemma jtoc_value_list_dispatch:
  "jtoc_value_list w vl obj s = Returned (st, vl', s') \<Longrightarrow>
     dispatch_calls (events s') = dispatch_calls (events s)"
  by (auto simp: jtoc_value_list_def ERROR_def emit_def Let_def
           split: option.splits outcome.splits prod.splits
           dest!: jtoc_values_array_dispatch jtoc_string_dispatch jtoc_long_dispatch)

text \<open>
  C1. When \<open>jtoc_value_list\<close> returns a non-zero status for the managed value list,
  \<open>cjni_api_dispatch_values\<close> returns the non-zero status -1 and
  \<open>plugin_dispatch_values\<close> is not called; it is called, once and with the converted
  value list, only when the conversion returned 0.
\<close>

theorem C1_conversion_failure_never_dispatches:
  assumes "jtoc_value_list w (vl_init w) java_vl s = Returned (status, vl, s1)"
  shows "(status \<noteq> 0 \<longrightarrow>
            (\<exists>s'. cjni_api_dispatch_values w java_vl s = Returned (- 1, s')
               \<and> dispatch_calls (events s') = dispatch_calls (events s)))
       \<and> (status = 0 \<longrightarrow>
            (\<exists>s'. cjni_api_dispatch_values w java_vl s = Returned (dispatch_status w vl, s')
               \<and> dispatch_calls (events s') = dispatch_calls (events s) @ [vl]))"
  using assms jtoc_value_list_dispatch [OF assms]
  by (simp add: cjni_api_dispatch_values_def plugin_dispatch_values_def ERROR_def emit_def)


theorem C1_witness:
  "(\<exists>s'. cjni_api_dispatch_values w_no_ds 7 s_started = Returned (- 1, s')
        \<and> dispatch_calls (events s') = dispatch_calls (events s_started))
   \<and> (\<exists>s'. cjni_api_dispatch_values w_ok 7 s_started = Returned (dispatch_status w_ok example_vl, s')
        \<and> dispatch_calls (events s') = dispatch_calls (events s_started) @ [example_vl])"
proof -
  have "\<exists>vl s1. jtoc_value_list w_no_ds (vl_init w_no_ds) 7 s_started = Returned (- 1, vl, s1)"
    by (simp add: jtoc_value_list_def jtoc_string_def world_defs prim_defs s_started_def
          sstrncpy_def)
  then obtain vl s1 where
    failing: "jtoc_value_list w_no_ds (vl_init w_no_ds) 7 s_started = Returned (- 1, vl, s1)"
    by blast
  have "\<exists>s1. jtoc_value_list w_ok (vl_init w_ok) 7 s_started = Returned (0, example_vl, s1)"
    by (simp add: jtoc_value_list_def jtoc_string_def jtoc_long_def jtoc_values_array_def
          jtoc_value_def jtoc_double_def world_defs prim_defs s_started_def sstrncpy_def
          jlong_div_def signed_divide_int_def)
  then obtain s2 where
    succeeding: "jtoc_value_list w_ok (vl_init w_ok) 7 s_started = Returned (0, example_vl, s2)"
    by blast
  from C1_conversion_failure_never_dispatches [OF failing]
       C1_conversion_failure_never_dispatches [OF succeeding]
  show ?thesis by simp
qed

subsection \<open>Duplicate configuration blocks\<close>

lemma config_name_stored_iff:
  "config_name_stored cs nm \<longleftrightarrow> nm \<in> cfg_name ` set cs"
  by (induction cs) auto

text \<open>
  C2. When \<open>cjni_config_plugin_block\<close> is given a block whose single string argument
  is the name of a block already stored in \<open>java_plugin_configs\<close> (and the copy of the
  name could be allocated), it returns 0, leaves the stored list as it is, so that the
  first block stays and the duplicate is neither merged nor stored, and logs one warning
  that names the block. The state is arbitrary, so this holds at every point of every
  sequence of blocks.
\<close>

theorem C2_duplicate_plugin_block_is_discarded:
  assumes "ci_values ci = [OCONFIG_TYPE_STRING nm]"
      and "\<not> alloc_fails w (tick s)"
      and "nm \<in> cfg_name ` set (java_plugin_configs s)"
  shows "\<exists>fmt s'. cjni_config_plugin_block w ci s = (0, s')
           \<and> java_plugin_configs s' = java_plugin_configs s
           \<and> events s' = events s @ [Log LOG_WARNING fmt [Str nm]]"
  using assms
  by (simp add: cjni_config_plugin_block_def strdup_def WARNING_def emit_def
        config_name_stored_iff)

theorem C2_witness:
  "ci_values block_foo_second = [OCONFIG_TYPE_STRING ''foo'']
   \<and> ''foo'' \<in> cfg_name ` set (java_plugin_configs s_foo_stored)
   \<and> (\<exists>fmt s'. cjni_config_plugin_block w_ok block_foo_second s_foo_stored = (0, s')
           \<and> java_plugin_configs s' = java_plugin_configs s_foo_stored
           \<and> events s' = events s_foo_stored @ [Log LOG_WARNING fmt [Str ''foo'']])"
proof -
  have h1: "ci_values block_foo_second = [OCONFIG_TYPE_STRING ''foo'']"
    by (simp add: block_foo_second_def)
  have h2: "\<not> alloc_fails w_ok (tick s_foo_stored)"
    by (simp add: w_ok_def)
  have h3: "''foo'' \<in> cfg_name ` set (java_plugin_configs s_foo_stored)"
    by (simp add: s_foo_stored_def)
  from C2_duplicate_plugin_block_is_discarded [OF h1 h2 h3] h1 h3 show ?thesis by simp
qed

subsection \<open>Initialising the plugins\<close>

lemma cjni_init_plugins_loop_trace:
  "\<forall>cb \<in> set cbs. is_init cb \<longrightarrow> callable cb \<Longrightarrow>
     cjni_init_plugins_loop w cbs s =
       Returned (s\<lparr>events := events s @ concat (map (init_callback_spec w) (filter is_init cbs))\<rparr>)"
proof (induction cbs arbitrary: s)
  case Nil
  then show ?case by simp
next
  case (Cons cb cbs)
  then have IH: "\<And>s. cjni_init_plugins_loop w cbs s =
       Returned (s\<lparr>events := events s @ concat (map (init_callback_spec w) (filter is_init cbs))\<rparr>)"
    by simp
  show ?case
  proof (cases "is_init cb")
    case False
    moreover from False have "cb_type cb \<noteq> CB_TYPE_INIT" by (simp add: is_init_def)
    ultimately show ?thesis by (simp add: IH)
  next
    case True
    with Cons.prems obtain obj m where om: "cb_object cb = Some obj" "cb_method cb = Some m"
      by (auto simp: callable_def)
    then have spec: "init_callback_spec w cb =
        CallIntMethod_ev obj m [] (int_result w obj m) #
        (if int_result w obj m \<noteq> 0 then
           [Log LOG_ERR ''java plugin: Initializing `%s' failed with status %i. Removing read function.''
              [Str (cb_name cb), Num (int_result w obj m)],
            plugin_unregister_read_ev (cb_name cb)]
         else [])"
      by (simp add: init_callback_spec_def)
    from True have "cb_type cb = CB_TYPE_INIT" by (simp add: is_init_def)
    with om True show ?thesis
      by (simp add: IH spec CallIntMethod_def plugin_unregister_read_def ERROR_def emit_def)
  qed
qed

text \<open>
  C6. \<open>cjni_init_plugins\<close> returns 0 and adds to the trace, for every Init callback of
  \<open>java_callbacks\<close> in the order of registration and for no other callback, what
  \<open>init_callback_spec\<close> says: the call of the callback and, when its status is not 0, the
  error message followed by \<open>plugin_unregister_read\<close> with the name of that callback.
  A failing callback does not stop the iteration. Nothing else in the state changes.
  The Init callbacks are assumed to hold an object and a method, as every registered
  descriptor does.
\<close>

theorem C6_init_callbacks_all_invoked_in_order:
  assumes "\<forall>cb \<in> set (java_callbacks s). is_init cb \<longrightarrow> callable cb"
  shows "cjni_init_plugins w s =
           Returned (0, s\<lparr>events := events s @
             concat (map (init_callback_spec w) (filter is_init (java_callbacks s)))\<rparr>)"
  using cjni_init_plugins_loop_trace [OF assms, of w s]
  by (simp add: cjni_init_plugins_def)

theorem C6_witness:
  "cjni_init_plugins w_ok s_registered =
       Returned (0, s_registered\<lparr>events :=
         [CallIntMethod_ev 6 (MethodID 60 ''Init'' ''()I'') [] 1,
          Log LOG_ERR ''java plugin: Initializing `%s' failed with status %i. Removing read function.''
            [Str ''alpha'', Num 1],
          plugin_unregister_read_ev ''alpha'',
          CallIntMethod_ev 8 (MethodID 60 ''Init'' ''()I'') [] 0]\<rparr>)"
proof -
  have h: "\<forall>cb \<in> set (java_callbacks s_registered). is_init cb \<longrightarrow> callable cb"
    by (simp add: s_registered_def s_started_def callable_def cb_config_def
          cb_init_failing_def cb_init_good_def)
  from C6_init_callbacks_all_invoked_in_order [OF h, of w_ok] show ?thesis
    by (simp add: s_registered_def s_started_def is_init_def init_callback_spec_def
          cb_config_def cb_init_failing_def cb_init_good_def w_ok_def
          CB_TYPE_INIT_def CB_TYPE_CONFIG_def)
qed

subsection \<open>The status of a read callback\<close>

lemma attach_success_attached:
  assumes "cjni_thread_attach w s = Returned (Some env, s1)" and "jvm s \<noteq> None"
  shows "\<exists>n. 0 < n \<and> attached n s1"
  using assms
  by (auto simp: cjni_thread_attach_def attached_def c_alloc_def ERROR_def emit_def
        AttachCurrentThread_def
      split: option.splits prod.splits if_splits bool.splits)

lemma detach_attached_returns_0:
  assumes "attached n s" and "0 < n"
  shows "\<exists>s'. cjni_thread_detach w s = Returned (0, s')"
  using assms
  by (auto simp: attached_def cjni_thread_detach_def DetachCurrentThread_def Let_def
      split: option.splits)

lemma attached_CallIntMethod:
  "attached n s \<Longrightarrow> attached n (snd (CallIntMethod w obj m args s))"
  by (simp add: attached_def CallIntMethod_def emit_def)

text \<open>
  C10. When \<open>cjni_read\<close> has attached the thread and called the Read callback, what it
  returns is the status of \<open>cjni_thread_detach\<close>, which is 0, whatever status the managed
  callback answered: a failing Read callback is not reported to the caller.
\<close>

theorem C10_read_status_is_detach_status:
  assumes "jvm s \<noteq> None"
      and "cjni_thread_attach w s = Returned (Some env, s1)"
      and "cb_object cbi = Some obj" and "cb_method cbi = Some m"
  shows "\<exists>s2 s'. CallIntMethod w obj m [] s1 = (int_result w obj m, s2)
           \<and> cjni_thread_detach w s2 = Returned (0, s')
           \<and> cjni_read w (Some cbi) s = Returned (0, s')"
proof -
  obtain n where n: "0 < n" "attached n s1"
    using attach_success_attached [OF assms(2,1)] by blast
  obtain s2 where s2: "CallIntMethod w obj m [] s1 = (int_result w obj m, s2)"
    by (simp add: CallIntMethod_def)
  with attached_CallIntMethod [OF n(2), of w obj m "[]"] have "attached n s2" by simp
  from detach_attached_returns_0 [OF this n(1)]
  obtain s' where d: "cjni_thread_detach w s2 = Returned (0, s')" by blast
  from assms s2 d have "cjni_read w (Some cbi) s = Returned (0, s')"
    by (simp add: cjni_read_def)
  with s2 d show ?thesis by blast
qed

theorem C10_witness:
  "jvm s_started \<noteq> None \<and> int_result w_ok 6 (MethodID 60 ''Read'' ''()I'') = 1
   \<and> (\<exists>s1 s2 s'. cjni_thread_attach w_ok s_started = Returned (Some 101, s1)
         \<and> CallIntMethod w_ok 6 (MethodID 60 ''Read'' ''()I'') [] s1 = (1, s2)
         \<and> cjni_thread_detach w_ok s2 = Returned (0, s')
         \<and> cjni_read w_ok (Some cb_read) s_started = Returned (0, s'))"
proof -
  have h1: "jvm s_started \<noteq> None" by (simp add: s_started_def)
  have "\<exists>s1. cjni_thread_attach w_ok s_started = Returned (Some 101, s1)"
    by (simp add: cjni_thread_attach_def s_started_def w_ok_def c_alloc_def
          AttachCurrentThread_def emit_def)
  then obtain s1 where h2: "cjni_thread_attach w_ok s_started = Returned (Some 101, s1)"
    by blast
  have h3: "cb_object cb_read = Some 6" and h4: "cb_method cb_read = Some (MethodID 60 ''Read'' ''()I'')"
    by (simp_all add: cb_read_def)
  have r: "int_result w_ok 6 (MethodID 60 ''Read'' ''()I'') = 1" by (simp add: w_ok_def)
  from C10_read_status_is_detach_status [OF h1 h2 h3 h4] h1 h2 r show ?thesis
    by auto
qed


subsection \<open>Time and interval at the boundary\<close>

lemma last_long_set_append:
  "last_long_set obj nm (xs @ ys) =
     (case last_long_set obj nm ys of Some v \<Rightarrow> Some v | None \<Rightarrow> last_long_set obj nm xs)"
  by (induction xs) (auto split: option.splits)

lemma ctoj_value_to_number_frame:
  "last_long_set obj nm (events (snd (ctoj_value_to_number w v t s))) = last_long_set obj nm (events s)"
  by (simp add: ctoj_value_to_number_def ctoj_jlong_to_number_def ctoj_jdouble_to_number_def
        NewObject_def ERROR_def emit_def last_long_set_append split: option.splits)

lemma ctoj_value_list_add_value_frame:
  "ctoj_value_list_add_value w v t c obj' s = (st, s') \<Longrightarrow>
     last_long_set obj nm (events s') = last_long_set obj nm (events s)"
  using ctoj_value_to_number_frame [of obj nm w v t s]
  by (auto simp: ctoj_value_list_add_value_def GetMethodID_def CallVoidMethod_def
        DeleteLocalRef_def ERROR_def emit_def last_long_set_append
      split: option.splits prod.splits if_splits)

lemma ctoj_value_list_values_frame:
  "ctoj_value_list_values w c obj' vals dsrcs s = Returned (b, s') \<Longrightarrow>
     last_long_set obj nm (events s') = last_long_set obj nm (events s)"
proof (induction w c obj' vals dsrcs s rule: ctoj_value_list_values.induct)
  case (1 w c obj' dsrcs s)
  then show ?case by simp
next
  case (2 w c obj' v vs s)
  then show ?case by simp
next
  case (3 w c obj' v vs d dsrcs s)
  obtain st s1 where av: "ctoj_value_list_add_value w v (ds_type d) c obj' s = (st, s1)"
    by (cases "ctoj_value_list_add_value w v (ds_type d) c obj' s")
  note fr = ctoj_value_list_add_value_frame [OF av, of obj nm]
  show ?case
  proof (cases "st = 0")
    case True
    with 3 av fr show ?thesis by simp
  next
    case False
    with 3 av fr show ?thesis
      by (auto simp: DeleteLocalRef_def ERROR_def emit_def last_long_set_append)
  qed
qed

lemma ctoj_long_0:
  "ctoj_long w v c obj nm s = (0, s') \<Longrightarrow>
     events s' = events s @ [CallVoidMethod_ev obj (MethodID c nm ''(J)V'') [JLong v]]"
  by (auto simp: ctoj_long_def GetMethodID_def CallVoidMethod_def emit_def
      split: option.splits if_splits)

lemma ctoj_value_list_setters:
  assumes "ctoj_value_list w ds vl s = Returned (Some obj, s')"
  shows "last_long_set obj ''setTime'' (events s') = Some (vl_time vl * 1000)
       \<and> last_long_set obj ''setInterval'' (events s') = Some (scast (vl_interval vl))"
proof -
  from assms obtain c s3 s4 s5 where
    t: "ctoj_long w (vl_time vl * 1000) c obj ''setTime'' s3 = (0, s4)" and
    i: "ctoj_long w (scast (vl_interval vl)) c obj ''setInterval'' s4 = (0, s5)" and
    v: "ctoj_value_list_values w c obj (vl_values vl) (dset_ds ds) s5 = Returned (True, s')"
    by (auto simp: ctoj_value_list_def split: option.splits prod.splits if_splits
          outcome.splits bool.splits)
  from ctoj_value_list_values_frame [OF v] ctoj_long_0 [OF t] ctoj_long_0 [OF i]
  show ?thesis by (simp add: last_long_set_append)
qed

lemma jtoc_long_Some:
  "jtoc_long w c obj nm s = (Some v, s') \<Longrightarrow> v = long_result w obj (MethodID c nm ''()J'')"
  by (auto simp: jtoc_long_def GetMethodID_def split: option.splits if_splits)

lemma jtoc_value_list_fields:
  assumes "jtoc_value_list w vl0 obj s = Returned (0, vl, s')"
  shows "\<exists>c. object_class w obj = Some c
           \<and> vl_time vl = jlong_div (long_result w obj (MethodID c ''getTime'' ''()J'')) 1000
           \<and> vl_interval vl = ucast (long_result w obj (MethodID c ''getInterval'' ''()J''))"
  using assms
  by (auto simp: jtoc_value_list_def Let_def
      split: option.splits prod.splits outcome.splits
      dest!: jtoc_long_Some)

lemma sint_jlong_div_1000: "sint (jlong_div a 1000) = sint a sdiv 1000"
proof -
  have r: "- 9223372036854775808 \<le> sint a" "sint a < 9223372036854775808"
    using sint_ge [of a] sint_lt [of a] by simp_all
  then have d: "\<bar>sint a\<bar> div 1000 < 9223372036854775808" by arith
  have q: "sint a sdiv 1000 = sgn (sint a) * (\<bar>sint a\<bar> div 1000)"
    by (simp add: signed_divide_int_def)
  have "\<bar>sint a sdiv 1000\<bar> \<le> \<bar>sint a\<bar> div 1000"
    unfolding q by (simp add: abs_mult abs_sgn_eq)
  with d have "- (2 ^ 63) \<le> sint a sdiv 1000" "sint a sdiv 1000 < 2 ^ 63"
    by simp_all
  then show ?thesis
    by (simp add: jlong_div_def sint_sbintrunc' signed_take_bit_int_eq_self)
qed

lemma sint_scast_interval: "sint (scast (x :: 32 word) :: 64 word) = sint x"
  by (rule sint_up_scast) (simp add: is_up)

lemma sint_times_1000:
  assumes "- (2 ^ 63) \<le> sint (t :: 64 word) * 1000" and "sint t * 1000 < 2 ^ 63"
  shows "sint (t * 1000) = sint t * 1000"
  using assms
  by (simp add: sint_word_ariths signed_take_bit_int_eq_self)

text \<open>
  C4, as the code has it. The claim says that time and interval alike are multiplied by
  1000 towards the managed side and divided by 1000 towards the native side. At the
  value list with time 1000 and interval 10 the managed interval is 10, not 10000; and a
  managed interval of 10 comes back as 10, not as 10 / 1000.
\<close>

theorem C4_counterexample:
  "managed_long ''setInterval'' (ctoj_value_list w_ok example_ds example_vl s_started) = Some 10
   \<and> vl_interval example_vl = 10
   \<and> managed_long ''setInterval'' (ctoj_value_list w_ok example_ds example_vl s_started)
       \<noteq> Some (scast (vl_interval example_vl) * 1000)
   \<and> long_result w_ok 7 (MethodID 60 ''getInterval'' ''()J'') = 10
   \<and> native_vl (jtoc_value_list w_ok (vl_init w_ok) 7 s_started) = Some example_vl
   \<and> vl_interval example_vl \<noteq> ucast (jlong_div 10 1000)"
proof -
  have a: "managed_long ''setInterval'' (ctoj_value_list w_ok example_ds example_vl s_started) = Some 10"
    by (simp add: managed_long_def ctoj_value_list_def ctoj_value_list_add_data_set_def
          ctoj_data_set_def ctoj_data_source_def ctoj_string_def ctoj_int_def ctoj_double_def
          ctoj_long_def ctoj_value_list_add_value_def ctoj_value_to_number_def
          ctoj_jlong_to_number_def ctoj_jdouble_to_number_def
          world_defs prim_defs s_started_def)
  have b: "native_vl (jtoc_value_list w_ok (vl_init w_ok) 7 s_started) = Some example_vl"
    by (simp add: native_vl_def jtoc_value_list_def jtoc_string_def jtoc_long_def
          jtoc_values_array_def jtoc_value_def jtoc_double_def world_defs prim_defs
          s_started_def sstrncpy_def jlong_div_def signed_divide_int_def)
  have c: "vl_interval example_vl = 10" "long_result w_ok 7 (MethodID 60 ''getInterval'' ''()J'') = 10"
    by (simp_all add: world_defs)
  have d: "(10 :: 32 word) \<noteq> ucast (jlong_div 10 1000)"
    by (simp add: jlong_div_def signed_divide_int_def)
  from a b c d show ?thesis by simp
qed

text \<open>
  C4, amended. Only the time is converted. From native to managed, \<open>setTime\<close> receives
  the native time multiplied by 1000 in 64-bit arithmetic (the product itself where it
  fits) and \<open>setInterval\<close> receives the native interval unchanged, widened to a \<open>jlong\<close>.
  From managed to native, the time is the result of \<open>getTime\<close> divided by 1000, truncating
  towards zero, and the interval is the result of \<open>getInterval\<close> narrowed to an \<open>int\<close>,
  undivided.
\<close>

theorem C4_time_converted_interval_passed:
  assumes "ctoj_value_list w ds vl s = Returned (Some obj, s')"
      and "jtoc_value_list w' vl0 obj' t = Returned (0, nvl, t')"
  shows "last_long_set obj ''setTime'' (events s') = Some (vl_time vl * 1000)
       \<and> (- (2 ^ 63) \<le> sint (vl_time vl) * 1000 \<and> sint (vl_time vl) * 1000 < 2 ^ 63 \<longrightarrow>
            sint (vl_time vl * 1000) = sint (vl_time vl) * 1000)
       \<and> last_long_set obj ''setInterval'' (events s') = Some (scast (vl_interval vl))
       \<and> sint (scast (vl_interval vl) :: jlong) = sint (vl_interval vl)
       \<and> (\<exists>c. object_class w' obj' = Some c
             \<and> sint (vl_time nvl) = sint (long_result w' obj' (MethodID c ''getTime'' ''()J'')) sdiv 1000
             \<and> vl_interval nvl = ucast (long_result w' obj' (MethodID c ''getInterval'' ''()J'')))"
  using ctoj_value_list_setters [OF assms(1)] jtoc_value_list_fields [OF assms(2)]
  by (auto simp: sint_jlong_div_1000 sint_scast_interval sint_times_1000)

theorem C4_witness:
  "\<exists>obj s' t'. ctoj_value_list w_ok example_ds example_vl s_started = Returned (Some obj, s')
     \<and> jtoc_value_list w_ok (vl_init w_ok) 7 s_started = Returned (0, example_vl, t')
     \<and> vl_time example_vl = 1000 \<and> vl_interval example_vl = 10
     \<and> last_long_set obj ''setTime'' (events s') = Some 1000000
     \<and> sint (vl_time example_vl * 1000) = 1000000
     \<and> last_long_set obj ''setInterval'' (events s') = Some 10
     \<and> sint (vl_time example_vl) = sint (long_result w_ok 7 (MethodID 60 ''getTime'' ''()J'')) sdiv 1000
     \<and> vl_interval example_vl = ucast (long_result w_ok 7 (MethodID 60 ''getInterval'' ''()J''))"
proof -
  have "\<exists>obj s'. ctoj_value_list w_ok example_ds example_vl s_started = Returned (Some obj, s')"
    by (simp add: ctoj_value_list_def ctoj_value_list_add_data_set_def
          ctoj_data_set_def ctoj_data_source_def ctoj_string_def ctoj_int_def ctoj_double_def
          ctoj_long_def ctoj_value_list_add_value_def ctoj_value_to_number_def
          ctoj_jlong_to_number_def ctoj_jdouble_to_number_def
          world_defs prim_defs s_started_def)
  then obtain obj s' where
    h1: "ctoj_value_list w_ok example_ds example_vl s_started = Returned (Some obj, s')"
    by blast
  have "\<exists>t'. jtoc_value_list w_ok (vl_init w_ok) 7 s_started = Returned (0, example_vl, t')"
    by (simp add: jtoc_value_list_def jtoc_string_def jtoc_long_def jtoc_values_array_def
          jtoc_value_def jtoc_double_def world_defs prim_defs s_started_def sstrncpy_def
          jlong_div_def signed_divide_int_def)
  then obtain t' where
    h2: "jtoc_value_list w_ok (vl_init w_ok) 7 s_started = Returned (0, example_vl, t')"
    by blast
  have v: "vl_time example_vl = 1000" "vl_interval example_vl = 10"
    and c: "object_class w_ok 7 = Some 60"
    by (simp_all add: world_defs)
  from C4_time_converted_interval_passed [OF h1 h2] h1 h2 v c show ?thesis
    by auto
qed

subsection \<open>Configuration trees\<close>

text \<open>
  Whatever the node, every void method that \<open>ctoj_oconfig_item\<close> calls on any object is
  named \<open>addValue\<close>.
\<close>

lemma void_calls_on_append [simp]:
  "void_calls_on obj (xs @ ys) = void_calls_on obj xs @ void_calls_on obj ys"
  by (induction obj xs rule: void_calls_on.induct) simp_all

lemma ctoj_oconfig_value_no_void_calls:
  "void_calls_on obj (events (snd (ctoj_oconfig_value w v s))) = void_calls_on obj (events s)"
  by (cases v)
     (simp_all add: ctoj_oconfig_value_def ctoj_jdouble_to_number_def prim_defs
        split: option.splits)

lemma ctoj_oconfig_item_values_calls:
  "fst ` set (void_calls_on obj (events (snd
       (ctoj_oconfig_item_values w o_ocitem (MethodID c ''addValue'' sg) vs s))))
     \<subseteq> insert ''addValue'' (fst ` set (void_calls_on obj (events s)))"
proof (induction vs arbitrary: s)
  case Nil
  then show ?case by auto
next
  case (Cons v vs)
  obtain r s1 where v: "ctoj_oconfig_value w v s = (r, s1)"
    by (cases "ctoj_oconfig_value w v s")
  from ctoj_oconfig_value_no_void_calls [of obj w v s] v
  have fr: "void_calls_on obj (events s1) = void_calls_on obj (events s)" by simp
  show ?case
  proof (cases r)
    case None
    with v fr show ?thesis by (auto simp: DeleteLocalRef_def ERROR_def emit_def)
  next
    case (Some o_value)
    let ?s2 = "DeleteLocalRef o_value
                 (CallVoidMethod o_ocitem (MethodID c ''addValue'' sg) [JObject o_value] s1)"
    have "fst ` set (void_calls_on obj (events ?s2))
            \<subseteq> insert ''addValue'' (fst ` set (void_calls_on obj (events s)))"
      using fr by (auto simp: DeleteLocalRef_def CallVoidMethod_def emit_def)
    with Cons.IH [of ?s2] v Some show ?thesis by auto
  qed
qed

lemma only_addValue_trans:
  "B \<subseteq> insert (a :: string) A \<Longrightarrow> C \<subseteq> insert a B \<Longrightarrow> C \<subseteq> insert a A"
  by blast

lemma ctoj_oconfig_item_only_addValue:
  "fst ` set (void_calls_on obj (events (snd (ctoj_oconfig_item w ci s))))
     \<subseteq> insert ''addValue'' (fst ` set (void_calls_on obj (events s)))"
  and "\<forall>c sg. m_addvalue = MethodID c ''addValue'' sg \<longrightarrow>
     fst ` set (void_calls_on obj (events (snd
         (ctoj_oconfig_item_children w o_ocitem m_addvalue m_addchild cs s))))
     \<subseteq> insert ''addValue'' (fst ` set (void_calls_on obj (events s)))"
proof (induction w ci s and w o_ocitem m_addvalue m_addchild cs s
       rule: ctoj_oconfig_item_ctoj_oconfig_item_children.induct)
  case (1 w k vals chs s)
  let ?goal = "\<lambda>s'. fst ` set (void_calls_on obj (events s'))
                 \<subseteq> insert ''addValue'' (fst ` set (void_calls_on obj (events s)))"
  have log: "?goal (ERROR fmt args s0)" if "?goal s0" for fmt args s0
    using that by (simp add: ERROR_def emit_def)
  have del: "?goal (DeleteLocalRef r s0)" if "?goal s0" for r s0
    using that by (simp add: DeleteLocalRef_def emit_def)
  have s: "?goal s" by auto
  show ?case
  proof (cases "FindClass w ''org.collectd.api.OConfigItem''")
    case None
    then show ?thesis using log [OF s] by simp
  next
    case c: (Some c_ocitem)
    show ?thesis
    proof (cases "GetMethodID w c_ocitem ''<init>'' ''(Ljava/lang/String;)V''")
      case None
      with c show ?thesis using log [OF s] by simp
    next
      case m1: (Some m_ctor)
      show ?thesis
      proof (cases "GetMethodID w c_ocitem ''addValue'' ''(Lorg/collectd/api/OConfigValue;)V''")
        case None
        with c m1 show ?thesis using log [OF s] by simp
      next
        case m2: (Some m_addvalue)
        then have mv: "m_addvalue = MethodID c_ocitem ''addValue'' ''(Lorg/collectd/api/OConfigValue;)V''"
          by (simp add: GetMethodID_def split: if_splits)
        show ?thesis
        proof (cases "GetMethodID w c_ocitem ''addChild'' ''(Lorg/collectd/api/OConfigItem;)V''")
          case None
          with c m1 m2 show ?thesis using log [OF s] by simp
        next
          case m3: (Some m_addchild)
          obtain r1 s1 where k: "NewStringUTF w k s = (r1, s1)"
            by (cases "NewStringUTF w k s")
          then have "void_calls_on obj (events s1) = void_calls_on obj (events s)"
            by (auto simp: NewStringUTF_def emit_def)
          then have s1: "?goal s1" by auto
          show ?thesis
          proof (cases r1)
            case None
            with c m1 m2 m3 k show ?thesis using log [OF s1] by simp
          next
            case ok: (Some o_key)
            obtain r2 s2 where n: "NewObject w c_ocitem m_ctor [JObject o_key] s1 = (r2, s2)"
              by (cases "NewObject w c_ocitem m_ctor [JObject o_key] s1")
            then have "void_calls_on obj (events s2) = void_calls_on obj (events s1)"
              by (auto simp: NewObject_def emit_def)
            with s1 have s2: "?goal s2" by simp
            show ?thesis
            proof (cases r2)
              case None
              with c m1 m2 m3 k ok n show ?thesis using del [OF log [OF s2]] by simp
            next
              case oi: (Some o_ocitem)
              obtain b3 s3 where v: "ctoj_oconfig_item_values w o_ocitem m_addvalue vals
                                       (DeleteLocalRef o_key s2) = (b3, s3)"
                by (cases "ctoj_oconfig_item_values w o_ocitem m_addvalue vals (DeleteLocalRef o_key s2)")
              from ctoj_oconfig_item_values_calls
                     [of obj w o_ocitem c_ocitem "''(Lorg/collectd/api/OConfigValue;)V''" vals
                         "DeleteLocalRef o_key s2"] v mv
              have "fst ` set (void_calls_on obj (events s3))
                      \<subseteq> insert ''addValue'' (fst ` set (void_calls_on obj (events (DeleteLocalRef o_key s2))))"
                by simp
              from only_addValue_trans [OF del [OF s2] this] have s3: "?goal s3" .
              show ?thesis
              proof (cases b3)
                case False
                with c m1 m2 m3 k ok n oi v s3 show ?thesis by simp
              next
                case True
                then have bt: "b3 = True" by simp
                obtain b4 s4 where ch:
                  "ctoj_oconfig_item_children w o_ocitem m_addvalue m_addchild chs s3 = (b4, s4)"
                  by (cases "ctoj_oconfig_item_children w o_ocitem m_addvalue m_addchild chs s3")
                from "1.IH" [OF c m1 m2 m3 k [symmetric] ok n [symmetric] oi v [symmetric] bt] mv ch
                have "fst ` set (void_calls_on obj (events s4))
                      \<subseteq> insert ''addValue'' (fst ` set (void_calls_on obj (events s3)))"
                  by simp
                from only_addValue_trans [OF s3 this] have s4: "?goal s4" .
                from c m1 m2 m3 k ok n oi v True ch s4
                show ?thesis by (cases b4) simp_all
              qed
            qed
          qed
        qed
      qed
    qed
  qed
next
  case (2 w o_ocitem m_addvalue m_addchild s)
  then show ?case by auto
next
  case (3 w o_ocitem m_addvalue m_addchild c cs s)
  show ?case
  proof (intro allI impI)
    fix c' sg assume m: "m_addvalue = MethodID c' ''addValue'' sg"
    obtain r s1 where it: "ctoj_oconfig_item w c s = (r, s1)"
      by (cases "ctoj_oconfig_item w c s")
    from 3(1) it have a: "fst ` set (void_calls_on obj (events s1))
        \<subseteq> insert ''addValue'' (fst ` set (void_calls_on obj (events s)))" by simp
    show "fst ` set (void_calls_on obj (events (snd
         (ctoj_oconfig_item_children w o_ocitem m_addvalue m_addchild (c # cs) s))))
     \<subseteq> insert ''addValue'' (fst ` set (void_calls_on obj (events s)))"
    proof (cases r)
      case None
      with it a show ?thesis by (auto simp: DeleteLocalRef_def ERROR_def emit_def)
    next
      case (Some o_child)
      let ?s2 = "DeleteLocalRef o_child (CallVoidMethod o_ocitem m_addvalue [JObject o_child] s1)"
      have b: "fst ` set (void_calls_on obj (events ?s2))
                 \<subseteq> insert ''addValue'' (fst ` set (void_calls_on obj (events s1)))"
        using m by (auto simp: DeleteLocalRef_def CallVoidMethod_def emit_def)
      from 3(2) [OF it [symmetric] Some] m
      have c: "fst ` set (void_calls_on obj (events (snd
            (ctoj_oconfig_item_children w o_ocitem m_addvalue m_addchild cs ?s2))))
          \<subseteq> insert ''addValue'' (fst ` set (void_calls_on obj (events ?s2)))"
        by simp
      from only_addValue_trans [OF only_addValue_trans [OF a b] c] it Some
      show ?thesis by simp
    qed
  qed
qed


text \<open>
  C5, evaluated at a node \<open>Plugin\<close> with the value \<open>foo\<close> and one child \<open>Port\<close>. The managed
  node is object 101, the managed child (created from the string ``Port'', object 104) is
  object 105. The two void calls on the node are both calls of \<open>addValue\<close>, the second
  with the child as argument: the child is not added through \<open>addChild\<close>.
\<close>

theorem C5_children_added_with_addValue:
  "fst (ctoj_oconfig_item w_ok block_foo_first s_started) = Some 101
   \<and> void_calls_on 101 (events (snd (ctoj_oconfig_item w_ok block_foo_first s_started))) =
       [(''addValue'', [JObject 103]), (''addValue'', [JObject 105])]
   \<and> NewObject_ev 53 (MethodID 53 ''<init>'' ''(Ljava/lang/String;)V'') [JObject 104] (Some 105)
       \<in> set (events (snd (ctoj_oconfig_item w_ok block_foo_first s_started)))
   \<and> NewStringUTF_ev ''Port'' (Some 104)
       \<in> set (events (snd (ctoj_oconfig_item w_ok block_foo_first s_started)))"
  by (simp add: block_foo_first_def ctoj_oconfig_value_def ctoj_jdouble_to_number_def
        world_defs prim_defs s_started_def)

subsection \<open>Global references\<close>

lemma global_refs_deleted_append [simp]:
  "global_refs_deleted (xs @ ys) = global_refs_deleted xs @ global_refs_deleted ys"
  by (induction xs rule: global_refs_deleted.induct) simp_all

lemma global_refs_created_append [simp]:
  "global_refs_created (xs @ ys) = global_refs_created xs @ global_refs_created ys"
  by (induction xs rule: global_refs_created.induct) simp_all

lemma cjni_callback_info_create_object:
  "cjni_callback_info_create w o_name o_callback t s = (Some cbi, s') \<Longrightarrow>
     cb_object cbi = Some o_callback
     \<and> events s' = events s @ [NewGlobalRef_ev o_callback (fresh_ref w (s\<lparr>tick := Suc (Suc (tick s))\<rparr>))]"
  by (auto simp: cjni_callback_info_create_def c_alloc_def strdup_def NewGlobalRef_def
        emit_def ERROR_def fresh_ref_def
      split: option.splits prod.splits if_splits bool.splits)

lemma cjni_shutdown_twice:
  "cjni_shutdown w s = Returned (0, s') \<Longrightarrow> cjni_shutdown w' s' = Returned (0, s')"
  by (auto simp: cjni_shutdown_def Let_def ERROR_def emit_def
      split: if_splits prod.splits outcome.splits)

lemma cjni_shutdown_plugins_loop_frame:
  "cjni_shutdown_plugins_loop w cbs s = Returned s' \<Longrightarrow>
     java_callbacks s' = java_callbacks s \<and> java_classes_list s' = java_classes_list s
     \<and> global_refs_deleted (events s') = global_refs_deleted (events s)"
  by (induction cbs arbitrary: s)
     (auto simp: CallIntMethod_def ERROR_def emit_def split: if_splits option.splits)

lemma release_callbacks_events:
  "global_refs_deleted (events (release_callbacks cbs s)) =
     global_refs_deleted (events s) @ concat (map (\<lambda>cb. case cb_object cb of Some obj \<Rightarrow> [obj] | None \<Rightarrow> []) cbs)
   \<and> java_classes_list (release_callbacks cbs s) = java_classes_list s"
  by (induction cbs arbitrary: s) (auto simp: DeleteGlobalRef_def emit_def split: option.splits)

lemma release_classes_events:
  "global_refs_deleted (events (release_classes cls s)) =
     global_refs_deleted (events s) @ concat (map (\<lambda>cl. case cls_object cl of Some obj \<Rightarrow> [obj] | None \<Rightarrow> []) cls)"
  by (induction cls arbitrary: s) (auto simp: DeleteGlobalRef_def emit_def split: option.splits)

lemma cjni_shutdown_releases_stored_objects:
  assumes "cjni_shutdown w s = Returned (0, s')" and "jvm s \<noteq> None"
  shows "global_refs_deleted (events s') =
           global_refs_deleted (events s)
           @ concat (map (\<lambda>cb. case cb_object cb of Some obj \<Rightarrow> [obj] | None \<Rightarrow> []) (java_callbacks s))
           @ concat (map (\<lambda>cl. case cls_object cl of Some obj \<Rightarrow> [obj] | None \<Rightarrow> []) (java_classes_list s))"
  using assms
  by (auto simp: cjni_shutdown_def cjni_shutdown_plugins_def Let_def AttachCurrentThread_def
        ERROR_def emit_def release_callbacks_events release_classes_events
      split: if_splits prod.splits outcome.splits
      dest!: cjni_shutdown_plugins_loop_frame)


text \<open>
  C7, evaluated at the registration of a Config callback on object 6 under the name held
  by string 3. \<open>NewGlobalRef\<close> is called on object 6 and answers the global reference 102;
  the descriptor's \<open>object\<close> field holds 6, the reference the caller passed in.
\<close>

theorem C7_descriptor_keeps_local_reference:
  "cjni_callback_info_create w_ok 3 6 CB_TYPE_CONFIG s_started =
     (Some \<lparr>cb_name = ''myplugin'', cb_type = CB_TYPE_CONFIG, cb_class = Some 60,
             cb_object = Some 6,
             cb_method = Some (MethodID 60 ''Config'' ''(Lorg/collectd/api/OConfigItem;)I'')\<rparr>,
      s_started\<lparr>tick := 103, events := [NewGlobalRef_ev 6 (Some 102)]\<rparr>)"
  by (simp add: cjni_callback_info_create_def callback_method_def cb_type_defs
        world_defs prim_defs s_started_def)

lemma s_running_eq:
  "s_running =
     \<lparr>jvm = Some 1, cjni_env = None, jvm_argv = [],
      java_classes_list =
        [\<lparr>cls_name = ''org.example.Monitor'', cls_class = Some 57, cls_object = Some 100\<rparr>],
      java_plugin_configs = [],
      java_callbacks =
        [\<lparr>cb_name = ''myplugin'', cb_type = CB_TYPE_SHUTDOWN, cb_class = Some 60,
           cb_object = Some 6, cb_method = Some (MethodID 60 ''Shutdown'' ''()I'')\<rparr>],
      tick = 106,
      events =
        [NewObject_ev 57 (MethodID 57 ''<init>'' ''()V'') [] (Some 100),
         NewGlobalRef_ev 100 (Some 101), NewGlobalRef_ev 6 (Some 104)]\<rparr>"
  by (simp add: s_running_def s_loaded_def s_configured_def cjni_load_plugins_def
        cjni_load_plugin_class_def cjni_api_register_shutdown_def cjni_callback_register_def
        cjni_callback_info_create_def callback_method_def cb_type_defs
        world_defs prim_defs s_started_def)

lemma s_stopped_eq:
  "cjni_shutdown w_ok s_running = Returned (0, s_stopped)
   \<and> jvm s_stopped = None
   \<and> events s_stopped = events s_running @
        [AttachCurrentThread_ev 0,
         CallIntMethod_ev 6 (MethodID 60 ''Shutdown'' ''()I'') [] 1,
         Log LOG_ERR ''java plugin: Shutting down `%s' failed with status %i. ''
           [Str ''myplugin'', Num 1],
         DeleteGlobalRef_ev 6, DeleteGlobalRef_ev 100, DestroyJavaVM_ev]"
  by (simp add: s_stopped_def s_running_eq cjni_shutdown_def cjni_shutdown_plugins_def
        cb_type_defs Let_def w_ok_def prim_defs)

text \<open>
  C8, evaluated at a run that loaded one class (instance 100, global reference 101) and
  registered one shutdown callback (object 6, global reference 104). The first
  \<open>cjni_shutdown\<close> returns 0 and calls \<open>DeleteGlobalRef\<close> once on each stored \<open>object\<close> field,
  6 and 100; the global references 101 and 104 are not released. The second
  \<open>cjni_shutdown\<close> returns 0 and leaves the state, and so the trace, as it is.
\<close>

theorem C8_shutdown_releases_stored_local_references:
  "cjni_shutdown w_ok s_running = Returned (0, s_stopped)
   \<and> map cb_object (java_callbacks s_running) = [Some 6]
   \<and> map cls_object (java_classes_list s_running) = [Some 100]
   \<and> global_refs_created (events s_stopped) = [101, 104]
   \<and> global_refs_deleted (events s_stopped) = [6, 100]
   \<and> cjni_shutdown w_ok s_stopped = Returned (0, s_stopped)"
proof -
  have "cjni_shutdown w_ok s_stopped = Returned (0, s_stopped)"
    using s_stopped_eq by (simp add: cjni_shutdown_def)
  moreover have "events s_running =
        [NewObject_ev 57 (MethodID 57 ''<init>'' ''()V'') [] (Some 100),
         NewGlobalRef_ev 100 (Some 101), NewGlobalRef_ev 6 (Some 104)]"
    "map cb_object (java_callbacks s_running) = [Some 6]"
    "map cls_object (java_classes_list s_running) = [Some 100]"
    by (simp_all add: s_running_eq)
  ultimately show ?thesis using s_stopped_eq by simp
qed

subsection \<open>Attachment on the paths of the write callback\<close>

text \<open>\<open>cjni_read\<close> leaves the attach count as it found it, on every path that returns.\<close>

lemma cjni_read_balanced:
  assumes "cjni_read w ud s = Returned (r, s')"
      and "idle s \<or> (\<exists>n. 0 < n \<and> attached n s)"
  shows "attach_count s' = attach_count s"
  using assms
  by (auto simp: cjni_read_def cjni_thread_attach_def cjni_thread_detach_def attach_count_def
        idle_def attached_def prim_defs Let_def
      split: option.splits prod.splits if_splits outcome.splits bool.splits)


text \<open>
  C9, evaluated at a write callback in a world where the class \<open>ValueList\<close> cannot be found.
  The thread is attached (count 0 before the call), \<open>ctoj_value_list\<close> fails and
  \<open>cjni_write\<close> returns -1 without detaching: the count is 1 after the call and the trace
  holds an attach and no detach.
\<close>

theorem C9_write_error_path_stays_attached:
  "cjni_write w_no_class example_ds example_vl (Some cb_write) s_started =
     Returned (- 1,
       s_started\<lparr>cjni_env := Some \<lparr>jvm_env = Some 101, reference_counter = 1\<rparr>,
         tick := 102,
         events :=
           [AttachCurrentThread_ev 0,
            Log LOG_ERR ''java plugin: ctoj_value_list: FindClass (org.collectd.api.ValueList) failed.'' [],
            Log LOG_ERR ''java plugin: cjni_write: ctoj_value_list failed.'' []]\<rparr>)
   \<and> attach_count s_started = 0
   \<and> attach_count (s_started\<lparr>cjni_env := Some \<lparr>jvm_env = Some 101, reference_counter = 1\<rparr>\<rparr>) = 1"
  by (simp add: cjni_write_def cjni_thread_attach_def ctoj_value_list_def attach_count_def
        world_defs prim_defs s_started_def)

end
